theory Spec2Isabelle
  imports Complex_Main "HOL-Library.Char_ord" "HOL-Library.List_Lexorder" "HOL-Library.Sublist"
begin

section \<open>Values and errors\<close>

text \<open>
  The auditor reads its weather data from JSON. A measurement is a string marker
  (\<open>'unavailable'\<close>, \<open>'calm'\<close>, \<open>'clear'\<close>), a dictionary of fields, or a list of such
  dictionaries (the cloud layers). A field holds a number, a string or \<open>None\<close>.
  A number is the real number that the Python float denotes, so the comparisons of the
  source are the comparisons of the model. Python's float division and multiplication
  round their results; they are parameters \<open>fdiv\<close> and \<open>fmul\<close> of the checks that use them,
  and nothing is assumed about them. The infinities and NaN are not values of the model.

  A dictionary is the list of its items; its keys are distinct, and \<open>map_of\<close> is the lookup.
\<close>

datatype error =
    KeyError string
  | TypeError
  | UnboundLocalError string
  | ValueError
  | IndexError
  | ExternalError string

datatype val = Null | Num real | Str string

type_synonym dict = "(string \<times> val) list"

datatype measurement = MStr string | MDict dict | MList "dict list"

definition ebind :: "error + 'a \<Rightarrow> ('a \<Rightarrow> error + 'b) \<Rightarrow> error + 'b" where
  "ebind m f = (case m of Inl e \<Rightarrow> Inl e | Inr x \<Rightarrow> f x)"

text \<open>\<open>d[key]\<close> on a dictionary.\<close>

definition lookup :: "(string \<times> 'v) list \<Rightarrow> string \<Rightarrow> error + 'v" where
  "lookup d key = (case map_of d key of None \<Rightarrow> Inl (KeyError key) | Some v \<Rightarrow> Inr v)"

text \<open>
  \<open>m[key]\<close> with a string key: a dictionary looks the key up; a string and a list take
  integer indices only.
\<close>

definition getitem :: "measurement \<Rightarrow> string \<Rightarrow> error + val" where
  "getitem m key = (case m of MDict d \<Rightarrow> lookup d key | MStr s \<Rightarrow> Inl TypeError | MList ds \<Rightarrow> Inl TypeError)"

text \<open>
  \<open>key in m\<close>: key membership for a dictionary, substring test for a string, element test
  for a list (a list of dictionaries holds no string).
\<close>

definition contains :: "string \<Rightarrow> measurement \<Rightarrow> bool" where
  "contains key m = (case m of MDict d \<Rightarrow> map_of d key \<noteq> None | MStr s \<Rightarrow> sublist key s | MList ds \<Rightarrow> False)"

text \<open>Arithmetic and comparison of a field with a float: only numbers take part.\<close>

definition py_div :: "(real \<Rightarrow> real \<Rightarrow> real) \<Rightarrow> val \<Rightarrow> real \<Rightarrow> error + val" where
  "py_div fdiv v c = (case v of Num x \<Rightarrow> Inr (Num (fdiv x c)) | _ \<Rightarrow> Inl TypeError)"

definition py_mul :: "(real \<Rightarrow> real \<Rightarrow> real) \<Rightarrow> val \<Rightarrow> real \<Rightarrow> error + val" where
  "py_mul fmul v c = (case v of Num x \<Rightarrow> Inr (Num (fmul x c)) | _ \<Rightarrow> Inl TypeError)"

text \<open>
  The float arithmetic of the examples: IEEE 754 binary64 with rounding to nearest, ties
  to even. \<open>round_double x\<close> is the double nearest to \<open>x\<close>: a multiple of the spacing of
  the doubles around \<open>x\<close>, which is \<open>2 ^ (e - 52)\<close> where \<open>2 ^ e \<le> |x| < 2 ^ (e + 1)\<close>
  and \<open>e\<close> is at least \<open>-1022\<close>. This is the result of the machine for every \<open>x\<close> within
  the range of the finite doubles; beyond it the machine gives an infinity. The operands
  are read as Python reads a literal, as the doubles nearest to them.
\<close>

definition round_half_even :: "real \<Rightarrow> int" where
  "round_half_even y =
     (let f = \<lfloor>y\<rfloor>; r = y - of_int f
      in if r < 1 / 2 then f else if r > 1 / 2 then f + 1 else if even f then f else f + 1)"

definition round_double :: "real \<Rightarrow> real" where
  "round_double x =
     (if x = 0 then 0
      else let e = max \<lfloor>log 2 \<bar>x\<bar>\<rfloor> (- 1022); q = 2 powi (e - 52)
           in of_int (round_half_even (x / q)) * q)"

definition double_div :: "real \<Rightarrow> real \<Rightarrow> real" where
  "double_div x y = round_double (round_double x / round_double y)"

definition double_mul :: "real \<Rightarrow> real \<Rightarrow> real" where
  "double_mul x y = round_double (round_double x * round_double y)"

text \<open>\<open>limit >= v\<close>, \<open>limit > v\<close> and \<open>v > limit\<close> for a float limit.\<close>

definition ge_val :: "real \<Rightarrow> val \<Rightarrow> error + bool" where
  "ge_val limit v = (case v of Num x \<Rightarrow> Inr (limit \<ge> x) | _ \<Rightarrow> Inl TypeError)"

definition gt_val :: "real \<Rightarrow> val \<Rightarrow> error + bool" where
  "gt_val limit v = (case v of Num x \<Rightarrow> Inr (limit > x) | _ \<Rightarrow> Inl TypeError)"

definition val_gt :: "val \<Rightarrow> real \<Rightarrow> error + bool" where
  "val_gt v limit = (case v of Num x \<Rightarrow> Inr (x > limit) | _ \<Rightarrow> Inl TypeError)"

text \<open>Reading a local variable that no branch has assigned.\<close>

definition read_var :: "string \<Rightarrow> 'a option \<Rightarrow> error + 'a" where
  "read_var name v = (case v of None \<Rightarrow> Inl (UnboundLocalError name) | Some x \<Rightarrow> Inr x)"

section \<open>The visibility check\<close>

text \<open>
  \<^verbatim>\<open>
  if visibility == 'unavailable':
      return True
  elif "minimum" in visibility:
      if visibility["units"] == "FT":
          viz = (visibility["minimum"]/5280)
      elif visibility["units"] == "SM":
          viz = visibility["minimum"]
  elif "prevailing" in visibility:
      if visibility["units"] == "FT":
          viz = (visibility["prevailing"]/5280)
      elif visibility["units"] == "SM":
          viz = visibility["prevailing"]
  if minimum >= viz:
      return True
  else:
      return False
  \<close>
  The variable \<open>viz\<close> is \<open>None\<close> in the model while no branch has assigned it, and
  \<open>fdiv\<close> is the division \<open>/\<close> of floats.
\<close>

definition bad_visibility :: "(real \<Rightarrow> real \<Rightarrow> real) \<Rightarrow> measurement \<Rightarrow> real \<Rightarrow> error + bool" where
  "bad_visibility fdiv visibility minimum =
     (if visibility = MStr ''unavailable'' then Inr True
      else ebind
        (if contains ''minimum'' visibility then
           ebind (getitem visibility ''units'') (\<lambda>u.
             if u = Str ''FT'' then
               ebind (getitem visibility ''minimum'') (\<lambda>x. ebind (py_div fdiv x 5280) (\<lambda>q. Inr (Some q)))
             else if u = Str ''SM'' then
               ebind (getitem visibility ''minimum'') (\<lambda>x. Inr (Some x))
             else Inr None)
         else if contains ''prevailing'' visibility then
           ebind (getitem visibility ''units'') (\<lambda>u.
             if u = Str ''FT'' then
               ebind (getitem visibility ''prevailing'') (\<lambda>x. ebind (py_div fdiv x 5280) (\<lambda>q. Inr (Some q)))
             else if u = Str ''SM'' then
               ebind (getitem visibility ''prevailing'') (\<lambda>x. Inr (Some x))
             else Inr None)
         else Inr None)
        (\<lambda>viz. ebind (read_var ''viz'' viz) (\<lambda>v.
           ebind (ge_val minimum v) (\<lambda>b. if b then Inr True else Inr False))))"

text \<open>
  A valid visibility measurement, as the docstring of \<open>bad_visibility\<close> has it: the string
  \<open>'unavailable'\<close>, or a dictionary with \<open>'prevailing'\<close> and \<open>'units'\<close> and possibly
  \<open>'minimum'\<close> and \<open>'maximum'\<close>; the units are \<open>'FT'\<close> or \<open>'SM'\<close> and the other fields
  are floats.
\<close>

fun is_float :: "val option \<Rightarrow> bool" where
  "is_float (Some (Num x)) = True"
| "is_float _ = False"

fun is_optional_float :: "val option \<Rightarrow> bool" where
  "is_optional_float None = True"
| "is_optional_float v = is_float v"

fun the_float :: "val option \<Rightarrow> real" where
  "the_float (Some (Num x)) = x"
| "the_float _ = 0"

definition valid_visibility :: "measurement \<Rightarrow> bool" where
  "valid_visibility v =
     (case v of
        MStr s \<Rightarrow> s = ''unavailable''
      | MDict d \<Rightarrow>
          is_float (map_of d ''prevailing'') \<and>
          is_optional_float (map_of d ''minimum'') \<and>
          is_optional_float (map_of d ''maximum'') \<and>
          (map_of d ''units'' = Some (Str ''FT'') \<or> map_of d ''units'' = Some (Str ''SM''))
      | MList ds \<Rightarrow> False)"

text \<open>
  The specification's reading of a structured visibility: the governing distance is the
  \<open>minimum\<close> field when present, the \<open>prevailing\<close> field otherwise, and it is converted to
  statute miles: divided by 5280, as Python divides, when the units are feet.
\<close>

definition governing_distance :: "dict \<Rightarrow> real" where
  "governing_distance d =
     (if map_of d ''minimum'' \<noteq> None then the_float (map_of d ''minimum'')
      else the_float (map_of d ''prevailing''))"

definition to_statute_miles :: "(real \<Rightarrow> real \<Rightarrow> real) \<Rightarrow> dict \<Rightarrow> real \<Rightarrow> real" where
  "to_statute_miles fdiv d x = (if map_of d ''units'' = Some (Str ''FT'') then fdiv x 5280 else x)"

section \<open>The wind check\<close>

text \<open>
  \<^verbatim>\<open>
  if winds == "calm":
      return False
  elif winds == 'unavailable':
      return True
  elif winds["units"] == "MPS":
      crozz = (winds["crosswind"]*1.94384)
      if "gusts" in winds:
          windz = (winds["gusts"]*1.94384)
      elif "speed" in winds:
          windz = (winds["speed"]*1.94384)
  elif winds["units"] == "KT":
      crozz = winds["crosswind"]
      if "gusts" in winds:
          windz = winds["gusts"]
      elif "speed" in winds:
          windz = winds["speed"]
  if windz > maxwind or crozz > maxcross: return True
  else: return False
  \<close>
  The branches yield the pair of the variables \<open>windz\<close> and \<open>crozz\<close>, each \<open>None\<close> while
  unassigned. The \<open>or\<close> reads \<open>crozz\<close> only when the first comparison is false, and
  \<open>fmul\<close> is the multiplication \<open>*\<close> of floats.
\<close>

definition bad_winds :: "(real \<Rightarrow> real \<Rightarrow> real) \<Rightarrow> measurement \<Rightarrow> real \<Rightarrow> real \<Rightarrow> error + bool" where
  "bad_winds fmul winds maxwind maxcross =
     (if winds = MStr ''calm'' then Inr False
      else if winds = MStr ''unavailable'' then Inr True
      else ebind (getitem winds ''units'') (\<lambda>u.
        ebind
          (if u = Str ''MPS'' then
             ebind (getitem winds ''crosswind'') (\<lambda>c. ebind (py_mul fmul c 1.94384) (\<lambda>crozz.
               if contains ''gusts'' winds then
                 ebind (getitem winds ''gusts'') (\<lambda>g. ebind (py_mul fmul g 1.94384) (\<lambda>windz.
                   Inr (Some windz, Some crozz)))
               else if contains ''speed'' winds then
                 ebind (getitem winds ''speed'') (\<lambda>s. ebind (py_mul fmul s 1.94384) (\<lambda>windz.
                   Inr (Some windz, Some crozz)))
               else Inr (None, Some crozz)))
           else if u = Str ''KT'' then
             ebind (getitem winds ''crosswind'') (\<lambda>crozz.
               if contains ''gusts'' winds then
                 ebind (getitem winds ''gusts'') (\<lambda>windz. Inr (Some windz, Some crozz))
               else if contains ''speed'' winds then
                 ebind (getitem winds ''speed'') (\<lambda>windz. Inr (Some windz, Some crozz))
               else Inr (None, Some crozz))
           else Inr (None, None))
          (\<lambda>(windz, crozz).
             ebind (read_var ''windz'' windz) (\<lambda>w. ebind (val_gt w maxwind) (\<lambda>b1.
               if b1 then Inr True
               else ebind (read_var ''crozz'' crozz) (\<lambda>c. ebind (val_gt c maxcross) (\<lambda>b2.
                 if b2 then Inr True else Inr False)))))))"

text \<open>
  A valid wind measurement, as the docstring of \<open>bad_winds\<close> has it: \<open>'calm'\<close>,
  \<open>'unavailable'\<close>, or a dictionary with \<open>'speed'\<close> and \<open>'units'\<close> and possibly
  \<open>'crosswind'\<close> and \<open>'gusts'\<close>; the units are \<open>'KT'\<close> or \<open>'MPS'\<close> and the other fields
  are floats.
\<close>

definition valid_winds :: "measurement \<Rightarrow> bool" where
  "valid_winds w =
     (case w of
        MStr s \<Rightarrow> s = ''calm'' \<or> s = ''unavailable''
      | MDict d \<Rightarrow>
          is_float (map_of d ''speed'') \<and>
          is_optional_float (map_of d ''crosswind'') \<and>
          is_optional_float (map_of d ''gusts'') \<and>
          (map_of d ''units'' = Some (Str ''KT'') \<or> map_of d ''units'' = Some (Str ''MPS''))
      | MList ds \<Rightarrow> False)"

text \<open>
  The specification's reading of a structured wind: the wind value is \<open>gusts\<close> when
  present, \<open>speed\<close> otherwise; it and the crosswind are converted to knots.
\<close>

definition wind_value :: "dict \<Rightarrow> real" where
  "wind_value d =
     (if map_of d ''gusts'' \<noteq> None then the_float (map_of d ''gusts'')
      else the_float (map_of d ''speed''))"

definition to_knots :: "(real \<Rightarrow> real \<Rightarrow> real) \<Rightarrow> dict \<Rightarrow> real \<Rightarrow> real" where
  "to_knots fmul d x = (if map_of d ''units'' = Some (Str ''MPS'') then fmul x 1.94384 else x)"

section \<open>The ceiling check\<close>

text \<open>
  Each of the four loops
  \<^verbatim>\<open>
  for x in range(len(ceiling)):
      if ceiling[x]["type"] == "scattered":
          scattered.append(ceiling[x]["height"])
  \<close>
  collects the heights of the layers of one type, in order.
\<close>

fun heights_of :: "string \<Rightarrow> dict list \<Rightarrow> error + val list" where
  "heights_of ty [] = Inr []"
| "heights_of ty (layer # layers) =
     ebind (lookup layer ''type'') (\<lambda>t.
       if t = Str ty then
         ebind (lookup layer ''height'') (\<lambda>h.
           ebind (heights_of ty layers) (\<lambda>hs. Inr (h # hs)))
       else heights_of ty layers)"

text \<open>
  The four loops in sequence. A string other than the two markers is indexed by
  characters, which have no field \<open>"type"\<close>; a dictionary has no key \<open>0\<close>; either runs no
  iteration when it is empty.
\<close>

definition layer_heights :: "measurement \<Rightarrow> error + (val list \<times> val list \<times> val list \<times> val list)" where
  "layer_heights ceiling' =
     (case ceiling' of
        MList layers \<Rightarrow>
          ebind (heights_of ''scattered'' layers) (\<lambda>scattered.
          ebind (heights_of ''broken'' layers) (\<lambda>broken.
          ebind (heights_of ''overcast'' layers) (\<lambda>overcast.
          ebind (heights_of ''indefinite ceiling'' layers) (\<lambda>indef_ceil.
            Inr (scattered, broken, overcast, indef_ceil)))))
      | MStr s \<Rightarrow> if s = [] then Inr ([], [], [], []) else Inl TypeError
      | MDict d \<Rightarrow> if d = [] then Inr ([], [], [], []) else Inl (KeyError ''0''))"

text \<open>
  Python's \<open>min\<close> keeps the first item and replaces it by each later item that is
  \<open><\<close> it. Two numbers and two strings compare; anything else raises.
\<close>

fun py_lt :: "val \<Rightarrow> val \<Rightarrow> error + bool" where
  "py_lt (Num a) (Num b) = Inr (a < b)"
| "py_lt (Str a) (Str b) = Inr (a < b)"
| "py_lt _ _ = Inl TypeError"

fun min_from :: "val \<Rightarrow> val list \<Rightarrow> error + val" where
  "min_from cur [] = Inr cur"
| "min_from cur (item # items) =
     ebind (py_lt item cur) (\<lambda>b. min_from (if b then item else cur) items)"

fun py_min :: "val list \<Rightarrow> error + val" where
  "py_min [] = Inl ValueError"
| "py_min (x # xs) = min_from x xs"

text \<open>
  \<^verbatim>\<open>
  if ceiling == "clear":
      return False
  elif ceiling == 'unavailable':
      return True
  else:
      (the four loops)
  if len(scattered) != 0:
      scattered = min(scattered)
  if len(broken) != 0:
      comp_ceils.append(min(broken))
  if len(overcast) != 0:
      comp_ceils.append(min(overcast))
  if len(indef_ceil) != 0:
      comp_ceils.append(min(indef_ceil))
  if len(comp_ceils) == 0 and scattered != None:
          return False
  elif len(comp_ceils) > 0:
      ceil = min(comp_ceils)
      return minimum > ceil
  \<close>
  After its reassignment \<open>scattered\<close> is the empty list (\<open>Inl\<close>) or a height (\<open>Inr\<close>).
  The function returns \<open>None\<close> when neither final branch is taken. The parameter
  \<open>ceiling\<close> is written \<open>ceiling'\<close>.
\<close>

definition bad_ceiling :: "measurement \<Rightarrow> real \<Rightarrow> error + bool option" where
  "bad_ceiling ceiling' minimum =
     (if ceiling' = MStr ''clear'' then Inr (Some False)
      else if ceiling' = MStr ''unavailable'' then Inr (Some True)
      else ebind (layer_heights ceiling') (\<lambda>(scattered, broken, overcast, indef_ceil).
        ebind (if length scattered \<noteq> 0 then ebind (py_min scattered) (\<lambda>m. Inr (Inr m))
               else Inr (Inl scattered)) (\<lambda>scattered'.
        ebind (if length broken \<noteq> 0 then ebind (py_min broken) (\<lambda>m. Inr [m])
               else Inr []) (\<lambda>comp_ceils1.
        ebind (if length overcast \<noteq> 0 then ebind (py_min overcast) (\<lambda>m. Inr (comp_ceils1 @ [m]))
               else Inr comp_ceils1) (\<lambda>comp_ceils2.
        ebind (if length indef_ceil \<noteq> 0 then ebind (py_min indef_ceil) (\<lambda>m. Inr (comp_ceils2 @ [m]))
               else Inr comp_ceils2) (\<lambda>comp_ceils.
          if length comp_ceils = 0 \<and> scattered' \<noteq> Inr Null then Inr (Some False)
          else if length comp_ceils > 0 then
            ebind (py_min comp_ceils) (\<lambda>ceil.
              ebind (gt_val minimum ceil) (\<lambda>b. Inr (Some b)))
          else Inr None))))))"

text \<open>
  A valid ceiling measurement, as the docstring of \<open>bad_ceiling\<close> has it: \<open>'clear'\<close>,
  \<open>'unavailable'\<close>, or a list of cloud layers, each a dictionary with a \<open>'type'\<close> out of
  the five cover types, a float \<open>'height'\<close> and the \<open>'units'\<close> \<open>'FT'\<close>.
\<close>

definition cover_types :: "string list" where
  "cover_types = [''a few'', ''scattered'', ''broken'', ''overcast'', ''indefinite ceiling'']"

definition valid_layer :: "dict \<Rightarrow> bool" where
  "valid_layer l =
     ((case map_of l ''type'' of Some (Str t) \<Rightarrow> t \<in> set cover_types | _ \<Rightarrow> False) \<and>
      is_float (map_of l ''height'') \<and>
      map_of l ''units'' = Some (Str ''FT''))"

definition valid_ceiling :: "measurement \<Rightarrow> bool" where
  "valid_ceiling c =
     (case c of
        MStr s \<Rightarrow> s = ''clear'' \<or> s = ''unavailable''
      | MDict d \<Rightarrow> False
      | MList layers \<Rightarrow> list_all valid_layer layers)"

text \<open>
  The specification's reading: the layers that constitute a ceiling are the broken,
  overcast and indefinite ones, and the governing ceiling is the least of their heights.
\<close>

definition is_ceiling_layer :: "dict \<Rightarrow> bool" where
  "is_ceiling_layer l =
     (map_of l ''type'' = Some (Str ''broken'') \<or>
      map_of l ''type'' = Some (Str ''overcast'') \<or>
      map_of l ''type'' = Some (Str ''indefinite ceiling''))"

definition ceiling_heights :: "dict list \<Rightarrow> real list" where
  "ceiling_heights layers = map (\<lambda>l. the_float (map_of l ''height'')) (filter is_ceiling_layer layers)"

section \<open>The violation classifier\<close>

type_synonym observation = "(string \<times> measurement) list"

text \<open>\<open>xs[i]\<close> for the literal indices of the source.\<close>

definition py_index :: "'a list \<Rightarrow> nat \<Rightarrow> error + 'a" where
  "py_index xs i = (if i < length xs then Inr (xs ! i) else Inl IndexError)"

text \<open>
  \<^verbatim>\<open>
  b_v = None; b_w = None; b_c = None
  if weather == None:
      return 'Unknown'
  if bad_visibility(weather['visibility'], minimums[1]) == True:
      b_v = 'Visibility'
  if bad_winds(weather['wind'], minimums[2], minimums[3]) == True:
      b_w = 'Winds'
  if bad_ceiling(weather['sky'], minimums[0]) == True:
      b_c = 'Ceiling'
  baddies = []
  if b_v != None: baddies.append(b_v)
  if b_w != None: baddies.append(b_w)
  if b_c != None: baddies.append(b_c)
  if len(baddies) == 0: return ''
  elif len(baddies) == 1: return baddies[0]
  elif len(baddies) > 1: return 'Weather'
  \<close>
\<close>

definition append_label :: "string option \<Rightarrow> string list \<Rightarrow> string list" where
  "append_label b baddies = (if b \<noteq> None then baddies @ [the b] else baddies)"

definition get_weather_violation ::
  "(real \<Rightarrow> real \<Rightarrow> real) \<Rightarrow> (real \<Rightarrow> real \<Rightarrow> real) \<Rightarrow> observation option \<Rightarrow> real list \<Rightarrow>
     error + string" where
  "get_weather_violation fdiv fmul weather minimums =
     (case weather of
        None \<Rightarrow> Inr ''Unknown''
      | Some w \<Rightarrow>
          ebind (lookup w ''visibility'') (\<lambda>visibility.
          ebind (py_index minimums 1) (\<lambda>m1.
          ebind (bad_visibility fdiv visibility m1) (\<lambda>bv.
          ebind (lookup w ''wind'') (\<lambda>wind.
          ebind (py_index minimums 2) (\<lambda>m2.
          ebind (py_index minimums 3) (\<lambda>m3.
          ebind (bad_winds fmul wind m2 m3) (\<lambda>bw.
          ebind (lookup w ''sky'') (\<lambda>sky.
          ebind (py_index minimums 0) (\<lambda>m0.
          ebind (bad_ceiling sky m0) (\<lambda>bc.
            let b_v = (if bv = True then Some ''Visibility'' else None);
                b_w = (if bw = True then Some ''Winds'' else None);
                b_c = (if bc = Some True then Some ''Ceiling'' else None);
                baddies = append_label b_c (append_label b_w (append_label b_v []))
            in if length baddies = 0 then Inr ''''
               else if length baddies = 1 then Inr (baddies ! 0)
               else Inr ''Weather'')))))))))))"

text \<open>
  The specification's reading of the classifier: the labels of the checks that fired, in
  the order Visibility, Winds, Ceiling; none is compliant, one is that label, more are
  \<open>'Weather'\<close>.
\<close>

definition fired_labels :: "bool \<Rightarrow> bool \<Rightarrow> bool \<Rightarrow> string list" where
  "fired_labels visibility_fired winds_fired ceiling_fired =
     (if visibility_fired then [''Visibility''] else []) @
     (if winds_fired then [''Winds''] else []) @
     (if ceiling_fired then [''Ceiling''] else [])"

definition classify :: "string list \<Rightarrow> string" where
  "classify fired = (case fired of [] \<Rightarrow> '''' | [label] \<Rightarrow> label | _ \<Rightarrow> ''Weather'')"

section \<open>Timestamps\<close>

text \<open>
  The \<open>tzinfo\<close> of a datetime is \<open>None\<close> or a time zone object. The model has the
  classes that carry the fixed offsets of ISO timestamps: \<open>datetime.timezone\<close> of the
  standard library, and \<open>tzoffset\<close> and \<open>tzutc\<close> of \<open>dateutil\<close>, which is what
  \<open>dateutil.parser.parse\<close> gives to a parsed timestamp. Offsets are in seconds.

  \<open>==\<close> on these objects is the \<open>__eq__\<close> of the classes: two \<open>timezone\<close>s and two
  \<open>tzoffset\<close>s are equal when their offsets are, \<open>tzutc\<close> equals \<open>tzutc\<close> and a
  \<open>tzoffset\<close> of zero, and objects of the standard library and of \<open>dateutil\<close> are never
  equal, whatever their offsets.
\<close>

datatype timezone = Timezone int | Tzoffset int | Tzutc

fun utcoffset :: "timezone \<Rightarrow> int" where
  "utcoffset (Timezone off) = off"
| "utcoffset (Tzoffset off) = off"
| "utcoffset Tzutc = 0"

fun timezone_eq :: "timezone \<Rightarrow> timezone \<Rightarrow> bool" where
  "timezone_eq (Timezone a) (Timezone b) = (a = b)"
| "timezone_eq (Tzoffset a) (Tzoffset b) = (a = b)"
| "timezone_eq Tzutc Tzutc = True"
| "timezone_eq Tzutc (Tzoffset b) = (b = 0)"
| "timezone_eq (Tzoffset a) Tzutc = (a = 0)"
| "timezone_eq _ _ = False"

fun tzinfo_eq :: "timezone option \<Rightarrow> timezone option \<Rightarrow> bool" where
  "tzinfo_eq None None = True"
| "tzinfo_eq (Some a) (Some b) = timezone_eq a b"
| "tzinfo_eq _ _ = False"

text \<open>
  A Python \<open>datetime\<close>: the calendar fields and the \<open>tzinfo\<close>. The constructor of
  \<open>datetime\<close> keeps every field in its range.
\<close>

record datetime =
  year :: nat
  month :: nat
  day :: nat
  hour :: nat
  minute :: nat
  second :: nat
  microsecond :: nat
  tzinfo :: "timezone option"

definition valid_datetime :: "datetime \<Rightarrow> bool" where
  "valid_datetime d =
     (1 \<le> year d \<and> year d \<le> 9999 \<and> 1 \<le> month d \<and> month d \<le> 12 \<and>
      1 \<le> day d \<and> day d \<le> 31 \<and> hour d < 24 \<and> minute d < 60 \<and> second d < 60 \<and>
      microsecond d < 1000000 \<and>
      (case tzinfo d of None \<Rightarrow> True | Some tz \<Rightarrow> - 86400 < utcoffset tz \<and> utcoffset tz < 86400))"

text \<open>
  \<open>a > b\<close> for two datetimes whose \<open>tzinfo\<close> are equal, hence of one offset, compares
  the calendar fields in order. The source compares under that condition only.
\<close>

definition dt_fields :: "datetime \<Rightarrow> nat list" where
  "dt_fields d = [year d, month d, day d, hour d, minute d, second d, microsecond d]"

definition dt_gt :: "datetime \<Rightarrow> datetime \<Rightarrow> bool" where
  "dt_gt a b = (dt_fields b < dt_fields a)"

text \<open>
  \<open>zero_pad w n\<close> is \<open>'%0wd' % n\<close> for a number of at most \<open>w\<close> digits, and \<open>show_nat\<close>
  is \<open>repr\<close> of a natural number.
\<close>

definition digit_char :: "nat \<Rightarrow> char" where
  "digit_char n = ''0123456789'' ! (n mod 10)"

fun zero_pad :: "nat \<Rightarrow> nat \<Rightarrow> string" where
  "zero_pad 0 n = []"
| "zero_pad (Suc w) n = digit_char (n div 10 ^ w) # zero_pad w (n mod 10 ^ w)"

fun show_nat :: "nat \<Rightarrow> string" where
  "show_nat n = (if n < 10 then [digit_char n] else show_nat (n div 10) @ [digit_char n])"

declare show_nat.simps [simp del]

text \<open>
  \<open>datetime.isoformat()\<close>: \<open>YYYY-MM-DDTHH:MM:SS\<close>, then \<open>.ffffff\<close> when the microsecond
  is not zero, then the offset \<open>+HH:MM\<close> (with \<open>:SS\<close> when it has seconds) of an aware
  datetime.
\<close>

definition format_offset :: "timezone option \<Rightarrow> string" where
  "format_offset tz =
     (case tz of
        None \<Rightarrow> []
      | Some z \<Rightarrow>
          (let off = utcoffset z; a = nat \<bar>off\<bar> in
             (if off < 0 then ''-'' else ''+'') @
             zero_pad 2 (a div 3600) @ '':'' @ zero_pad 2 (a mod 3600 div 60) @
             (if a mod 60 = 0 then [] else '':'' @ zero_pad 2 (a mod 60))))"

definition isoformat :: "datetime \<Rightarrow> string" where
  "isoformat d =
     zero_pad 4 (year d) @ ''-'' @ zero_pad 2 (month d) @ ''-'' @ zero_pad 2 (day d) @ ''T'' @
     zero_pad 2 (hour d) @ '':'' @ zero_pad 2 (minute d) @ '':'' @ zero_pad 2 (second d) @
     (if microsecond d = 0 then [] else ''.'' @ zero_pad 6 (microsecond d)) @
     format_offset (tzinfo d)"

section \<open>The observation resolver\<close>

type_synonym log = "(string \<times> observation) list"

text \<open>
  \<open>utils.str_to_time\<close> is not part of the sources at hand; it is a parameter: the datetime
  a key denotes, or the error of a key that is no timestamp.
  \<^verbatim>\<open>
  before_keys = []
  for key in weather:
      key_dto = utils.str_to_time(key)
      if takeoff.tzinfo == key_dto.tzinfo and takeoff > key_dto:
          before_keys.append(key)
  \<close>
\<close>

fun before_keys_loop ::
  "(string \<Rightarrow> error + datetime) \<Rightarrow> datetime \<Rightarrow> string list \<Rightarrow> string list \<Rightarrow> error + string list" where
  "before_keys_loop str_to_time takeoff before_keys [] = Inr before_keys"
| "before_keys_loop str_to_time takeoff before_keys (key # keys) =
     ebind (str_to_time key) (\<lambda>key_dto.
       before_keys_loop str_to_time takeoff
         (if tzinfo_eq (tzinfo takeoff) (tzinfo key_dto) \<and> dt_gt takeoff key_dto
          then before_keys @ [key] else before_keys)
         keys)"

text \<open>
  Python's \<open>max\<close> keeps the first item and replaces it by each later item that is
  \<open>>\<close> it; strings compare lexicographically. It raises on an empty list.
\<close>

fun max_from :: "string \<Rightarrow> string list \<Rightarrow> string" where
  "max_from cur [] = cur"
| "max_from cur (item # items) = max_from (if item > cur then item else cur) items"

fun py_max :: "string list \<Rightarrow> error + string" where
  "py_max [] = Inl ValueError"
| "py_max (x # xs) = Inr (max_from x xs)"

text \<open>
  \<^verbatim>\<open>
  iso_takeoff = takeoff.isoformat()
  try:
      weather_report = weather[iso_takeoff]
      return weather_report
  except:
      (the loop)
      best_key = max(before_keys)
      if len(best_key) != 0:
          return weather[best_key]
      elif len(best_key) == 0:
          return None
  \<close>
  The handler catches the \<open>KeyError\<close> of the lookup; what is raised inside the handler
  leaves the function.
\<close>

definition get_weather_report ::
  "(string \<Rightarrow> error + datetime) \<Rightarrow> datetime \<Rightarrow> log \<Rightarrow> error + observation option" where
  "get_weather_report str_to_time takeoff weather =
     (let iso_takeoff = isoformat takeoff in
      case lookup weather iso_takeoff of
        Inr weather_report \<Rightarrow> Inr (Some weather_report)
      | Inl e \<Rightarrow>
          ebind (before_keys_loop str_to_time takeoff [] (map fst weather)) (\<lambda>before_keys.
          ebind (py_max before_keys) (\<lambda>best_key.
            if length best_key \<noteq> 0 then
              ebind (lookup weather best_key) (\<lambda>r. Inr (Some r))
            else Inr None)))"

text \<open>
  The entries the fallback scan keeps: those whose timestamp has a \<open>tzinfo\<close> equal to that
  of the takeoff and lies strictly before it.
\<close>

definition is_before :: "(string \<Rightarrow> error + datetime) \<Rightarrow> datetime \<Rightarrow> string \<Rightarrow> bool" where
  "is_before str_to_time takeoff key =
     (case str_to_time key of
        Inl e \<Rightarrow> False
      | Inr key_dto \<Rightarrow> tzinfo_eq (tzinfo takeoff) (tzinfo key_dto) \<and> dt_gt takeoff key_dto)"

text \<open>
  The entries the specification speaks of: those whose timestamp has the UTC offset of
  the takeoff and lies strictly before it.
\<close>

definition same_offset_before :: "(string \<Rightarrow> error + datetime) \<Rightarrow> datetime \<Rightarrow> string \<Rightarrow> bool" where
  "same_offset_before str_to_time takeoff key =
     (case str_to_time key of
        Inl e \<Rightarrow> False
      | Inr key_dto \<Rightarrow>
          map_option utcoffset (tzinfo takeoff) = map_option utcoffset (tzinfo key_dto) \<and>
          dt_fields key_dto < dt_fields takeoff)"

text \<open>
  A stand-in for \<open>utils.str_to_time\<close> in the examples: it knows the timestamps of a small
  log of 21 April 2017, gives them the \<open>tzoffset\<close> that \<open>dateutil\<close> gives, and raises on
  every other string. \<open>lenient_str_to_time\<close> also reads a timestamp written with a space
  for the \<open>T\<close>, as \<open>dateutil\<close> does. \<open>stdlib_time\<close> is a takeoff built with
  \<open>datetime.timezone\<close>.
\<close>

definition example_time :: "nat \<Rightarrow> nat \<Rightarrow> int \<Rightarrow> datetime" where
  "example_time h m off =
     \<lparr>year = 2017, month = 4, day = 21, hour = h, minute = m, second = 0, microsecond = 0,
      tzinfo = Some (Tzoffset off)\<rparr>"

definition stdlib_time :: "nat \<Rightarrow> nat \<Rightarrow> int \<Rightarrow> datetime" where
  "stdlib_time h m off =
     \<lparr>year = 2017, month = 4, day = 21, hour = h, minute = m, second = 0, microsecond = 0,
      tzinfo = Some (Timezone off)\<rparr>"

definition example_str_to_time :: "string \<Rightarrow> error + datetime" where
  "example_str_to_time s =
     (case map_of
        [(''2017-04-21T06:00:00-04:00'', example_time 6 0 (- 14400)),
         (''2017-04-21T07:00:00-04:00'', example_time 7 0 (- 14400)),
         (''2017-04-21T08:00:00-04:00'', example_time 8 0 (- 14400)),
         (''2017-04-21T08:30:00-05:00'', example_time 8 30 (- 18000)),
         (''2017-04-21T09:00:00-04:00'', example_time 9 0 (- 14400))] s
      of None \<Rightarrow> Inl (ExternalError ''not a timestamp'') | Some d \<Rightarrow> Inr d)"

definition lenient_str_to_time :: "string \<Rightarrow> error + datetime" where
  "lenient_str_to_time s =
     (if s = ''2017-04-21 08:00:00-04:00'' then Inr (example_time 8 0 (- 14400))
      else example_str_to_time s)"

definition example_observation :: "real \<Rightarrow> observation" where
  "example_observation h =
     [(''visibility'', MDict [(''prevailing'', Num 10), (''units'', Str ''SM'')]),
      (''wind'', MDict [(''speed'', Num 13), (''crosswind'', Num 2), (''units'', Str ''KT'')]),
      (''sky'', MList [[(''type'', Str ''overcast''), (''height'', Num h), (''units'', Str ''FT'')]])]"

section \<open>The audit driver\<close>

text \<open>
  The collaborators of the driver that are not part of the sources at hand (the modules
  \<open>utils\<close> and \<open>pilots\<close>) are parameters. Each returns its value or the error it raises.
  \<open>utils.read_json\<close> appears twice, once for each file it is applied to. The record
  also carries the two float operations of the interpreter.
\<close>

record ('dc, 'stu, 'cert) collaborators =
  read_json_daycycle :: "string \<Rightarrow> error + 'dc"
  read_json_weather :: "string \<Rightarrow> error + log"
  read_csv :: "string \<Rightarrow> error + string list list"
  str_to_time :: "string \<Rightarrow> error + datetime"
  get_for_id :: "string \<Rightarrow> string list list \<Rightarrow> error + 'stu"
  get_certification :: "datetime \<Rightarrow> 'stu \<Rightarrow> error + 'cert"
  get_minimums :: "'cert \<Rightarrow> string \<Rightarrow> bool \<Rightarrow> bool \<Rightarrow> bool \<Rightarrow> string list list \<Rightarrow> error + real list"
  daytime :: "datetime \<Rightarrow> 'dc \<Rightarrow> error + bool"
  write_csv :: "string list list \<Rightarrow> string \<Rightarrow> error + unit"
  test_all :: "error + unit"
  float_div :: "real \<Rightarrow> real \<Rightarrow> real"
  float_mul :: "real \<Rightarrow> real \<Rightarrow> real"

definition DAYCYCLE :: string where "DAYCYCLE = ''daycycle.json''"
definition WEATHER :: string where "WEATHER = ''weather.json''"
definition MINIMUMS :: string where "MINIMUMS = ''minimums.csv''"
definition STUDENTS :: string where "STUDENTS = ''students.csv''"
definition LESSONS :: string where "LESSONS = ''lessons.csv''"

text \<open>\<open>os.path.join\<close> of two components, on POSIX.\<close>

definition path_join :: "string \<Rightarrow> string \<Rightarrow> string" where
  "path_join a b =
     (if b \<noteq> [] \<and> hd b = CHR ''/'' then b
      else if a = [] \<or> last a = CHR ''/'' then a @ b
      else a @ ''/'' @ b)"

text \<open>
  One iteration of the loop over the lessons. The variable \<open>vfr\<close> is assigned only when
  the sixth field is \<open>'VFR'\<close> or \<open>'IFR'\<close> and otherwise keeps the value of the iteration
  before, so it is passed on.
  \<^verbatim>\<open>
  line = lessons[x]
  takeoff = utils.str_to_time(lessons[x][3])
  cert = pilots.get_certification(takeoff, utils.get_for_id(lessons[x][0], students))
  if lessons[x][2] == '':
      instructed = False
  elif lessons[x][2] != '':
      instructed = True
  if lessons[x][5] == 'VFR':
      vfr = True
  elif lessons[x][5] == 'IFR':
      vfr = False
  pilot_minimums = pilots.get_minimums(cert, lessons[x][6], instructed, vfr,
                                       utils.daytime(takeoff, daycycle), minimums)
  weather_conditions = get_weather_report(takeoff, weather)
  viola = get_weather_violation(weather_conditions, pilot_minimums)
  \<close>
\<close>

definition lesson_violation ::
  "('dc, 'stu, 'cert) collaborators \<Rightarrow> 'dc \<Rightarrow> log \<Rightarrow> string list list \<Rightarrow> string list list \<Rightarrow>
     bool option \<Rightarrow> string list \<Rightarrow> error + (bool option \<times> string)" where
  "lesson_violation ext daycycle weather minimums students vfr line =
     ebind (py_index line 3) (\<lambda>f3.
     ebind (str_to_time ext f3) (\<lambda>takeoff.
     ebind (py_index line 0) (\<lambda>f0.
     ebind (get_for_id ext f0 students) (\<lambda>student.
     ebind (get_certification ext takeoff student) (\<lambda>cert.
     ebind (py_index line 2) (\<lambda>f2.
     let instructed = (if f2 = '''' then False else True) in
     ebind (py_index line 5) (\<lambda>f5.
     let vfr' = (if f5 = ''VFR'' then Some True else if f5 = ''IFR'' then Some False else vfr) in
     ebind (py_index line 6) (\<lambda>f6.
     ebind (read_var ''vfr'' vfr') (\<lambda>vfr_value.
     ebind (daytime ext takeoff daycycle) (\<lambda>is_day.
     ebind (get_minimums ext cert f6 instructed vfr_value is_day minimums) (\<lambda>pilot_minimums.
     ebind (get_weather_report (str_to_time ext) takeoff weather) (\<lambda>weather_conditions.
     ebind (get_weather_violation (float_div ext) (float_mul ext) weather_conditions pilot_minimums) (\<lambda>viola.
       Inr (vfr', viola))))))))))))))"

text \<open>
  \<^verbatim>\<open>
  results = []
  for x in range(len(lessons)):
      (the iteration above)
      if viola != '':
          line.append(viola)
          results.append(line)
  return results
  \<close>
\<close>

fun lessons_loop ::
  "('dc, 'stu, 'cert) collaborators \<Rightarrow> 'dc \<Rightarrow> log \<Rightarrow> string list list \<Rightarrow> string list list \<Rightarrow>
     bool option \<Rightarrow> string list list \<Rightarrow> string list list \<Rightarrow> error + string list list" where
  "lessons_loop ext daycycle weather minimums students vfr results [] = Inr results"
| "lessons_loop ext daycycle weather minimums students vfr results (line # lessons) =
     ebind (lesson_violation ext daycycle weather minimums students vfr line) (\<lambda>(vfr', viola).
       lessons_loop ext daycycle weather minimums students vfr'
         (if viola \<noteq> '''' then results @ [line @ [viola]] else results) lessons)"

text \<open>
  \<^verbatim>\<open>
  daycycle = utils.read_json(os.path.join(directory,DAYCYCLE))
  weather = utils.read_json(os.path.join(directory, WEATHER))
  minimums = utils.read_csv(os.path.join(directory, MINIMUMS))
  students = utils.read_csv(os.path.join(directory, STUDENTS))
  lessons = utils.read_csv(os.path.join(directory, LESSONS))
  lessons = lessons[1:]
  \<close>
\<close>

definition list_weather_violations ::
  "('dc, 'stu, 'cert) collaborators \<Rightarrow> string \<Rightarrow> error + string list list" where
  "list_weather_violations ext directory =
     ebind (read_json_daycycle ext (path_join directory DAYCYCLE)) (\<lambda>daycycle.
     ebind (read_json_weather ext (path_join directory WEATHER)) (\<lambda>weather.
     ebind (read_csv ext (path_join directory MINIMUMS)) (\<lambda>minimums.
     ebind (read_csv ext (path_join directory STUDENTS)) (\<lambda>students.
     ebind (read_csv ext (path_join directory LESSONS)) (\<lambda>lessons.
       lessons_loop ext daycycle weather minimums students None [] (drop 1 lessons))))))"

text \<open>
  The label of one valid takeoff record, whose flight rules are \<open>'VFR'\<close> or \<open>'IFR'\<close>: it
  does not depend on the records before it.
\<close>

definition valid_lesson :: "string list \<Rightarrow> bool" where
  "valid_lesson line = (length line \<ge> 7 \<and> (line ! 5 = ''VFR'' \<or> line ! 5 = ''IFR''))"

definition violation_label ::
  "('dc, 'stu, 'cert) collaborators \<Rightarrow> 'dc \<Rightarrow> log \<Rightarrow> string list list \<Rightarrow> string list list \<Rightarrow>
     string list \<Rightarrow> error + string" where
  "violation_label ext daycycle weather minimums students line =
     ebind (lesson_violation ext daycycle weather minimums students None line) (\<lambda>(vfr', viola).
       Inr viola)"

section \<open>The application\<close>

text \<open>What the application does to the outside: lines printed and files written.\<close>

datatype effect = Print string | WriteCsv "string list list" string | TestsRun

definition USAGE :: string where
  "USAGE = ''Usage: python auditor dataset [output.csv]''"

definition HEADER :: "string list" where
  "HEADER = [''STUDENT'', ''AIRPLANE'', ''INSTRUCTOR'', ''TAKEOFF'', ''LANDING'', ''FILED'', ''AREA'', ''REASON'']"

text \<open>
  \<^verbatim>\<open>
  vios = violations.list_weather_violations(directory)
  num_vios = len(vios)
  header = [['STUDENT', ..., 'REASON']]
  output_data = header + vios
  if len(vios) == 1:
      out_line = str(repr(num_vios)+' violation found.')
  elif len(vios) > 1:
      out_line = str(repr(num_vios)+' violations found.')
  elif len(vios) == 0:
      out_line = 'No violations found.'
  if output == None:
      filename = 'output.csv'
  elif output != None:
      filename = output
  utils.write_csv(output_data, filename)
  print(out_line)
  \<close>
\<close>

definition discover_violations ::
  "('dc, 'stu, 'cert) collaborators \<Rightarrow> string \<Rightarrow> string option \<Rightarrow> error + effect list" where
  "discover_violations ext directory output =
     ebind (list_weather_violations ext directory) (\<lambda>vios.
       let num_vios = length vios;
           output_data = [HEADER] @ vios;
           out_line = (if length vios = 1 then show_nat num_vios @ '' violation found.''
                       else if length vios > 1 then show_nat num_vios @ '' violations found.''
                       else ''No violations found.'');
           filename = (case output of None \<Rightarrow> ''output.csv'' | Some name \<Rightarrow> name)
       in ebind (write_csv ext output_data filename) (\<lambda>u.
            Inr [WriteCsv output_data filename, Print out_line]))"

text \<open>
  The call \<open>discover_violations(args)\<close> passes one positional argument to a function
  declared as \<open>def discover_violations(directory,output)\<close>: Python raises \<open>TypeError\<close>
  before the body runs.
\<close>

definition discover_violations_one_argument ::
  "('dc, 'stu, 'cert) collaborators \<Rightarrow> string list \<Rightarrow> error + effect list" where
  "discover_violations_one_argument ext args = Inl TypeError"

text \<open>
  \<^verbatim>\<open>
  if len(args) == 0 or len(args) > 2:
      print('Usage: python auditor dataset [output.csv]')
  elif len(args) == 2 and args[1] == '--test':
      print('Usage: python auditor dataset [output.csv]')
  elif len(args) == 2 and args[0] == '--test':
      print('Usage: python auditor dataset [output.csv]')
  elif len(args) == 1 and args[0] == '--test':
      tests.test_all()
  else:
      try:
          if len(args) == 1:
              discover_violations(args)
          elif len(args) == 2:
              discover_violations(args[0], args[1])
      except:
          print('Usage: python auditor dataset [output.csv]')
  \<close>
  The handler catches every error of the audit; an error of the test suite is not caught.
\<close>

definition execute :: "('dc, 'stu, 'cert) collaborators \<Rightarrow> string list \<Rightarrow> error + effect list" where
  "execute ext args =
     (if length args = 0 \<or> length args > 2 then Inr [Print USAGE]
      else if length args = 2 \<and> args ! 1 = ''--test'' then Inr [Print USAGE]
      else if length args = 2 \<and> args ! 0 = ''--test'' then Inr [Print USAGE]
      else if length args = 1 \<and> args ! 0 = ''--test'' then
        ebind (test_all ext) (\<lambda>u. Inr [TestsRun])
      else
        (case (if length args = 1 then discover_violations_one_argument ext args
               else if length args = 2 then discover_violations ext (args ! 0) (Some (args ! 1))
               else Inr [])
         of Inl e \<Rightarrow> Inr [Print USAGE]
          | Inr effects \<Rightarrow> Inr effects))"

text \<open>
  Collaborators for the examples: one dataset directory \<open>KITH\<close> with a log of three
  observations and three lessons, minimums that depend on the flight rules and the area, and a
  file system that accepts every write.
\<close>

definition example_log :: log where
  "example_log =
     [(''2017-04-21T07:00:00-04:00'', example_observation 700),
      (''2017-04-21T08:00:00-04:00'', example_observation 800),
      (''2017-04-21T09:00:00-04:00'', example_observation 1200)]"

definition example_lessons :: "string list list" where
  "example_lessons =
     [[''STUDENT'', ''AIRPLANE'', ''INSTRUCTOR'', ''TAKEOFF'', ''LANDING'', ''FILED'', ''AREA''],
      [''S00687'', ''548QR'', ''I061'', ''2017-04-21T08:00:00-04:00'', ''2017-04-21T09:00:00-04:00'', ''VFR'', ''Pattern''],
      [''S00758'', ''548QR'', '''', ''2017-04-21T09:00:00-04:00'', ''2017-04-21T10:00:00-04:00'', ''IFR'', ''Pattern''],
      [''S00971'', ''426JQ'', ''I072'', ''2017-04-21T07:00:00-04:00'', ''2017-04-21T08:00:00-04:00'', ''VFR'', ''Practice Area'']]"

definition example_ext :: "(unit, unit, unit) collaborators" where
  "example_ext =
     \<lparr>read_json_daycycle = (\<lambda>path. if path = ''KITH/daycycle.json'' then Inr ()
                                   else Inl (ExternalError ''no such file'')),
      read_json_weather = (\<lambda>path. if path = ''KITH/weather.json'' then Inr example_log
                                  else Inl (ExternalError ''no such file'')),
      read_csv = (\<lambda>path. if path = ''KITH/lessons.csv'' then Inr example_lessons
                         else if path = ''KITH/minimums.csv'' \<or> path = ''KITH/students.csv'' then Inr []
                         else Inl (ExternalError ''no such file'')),
      str_to_time = example_str_to_time,
      get_for_id = (\<lambda>ident students. Inr ()),
      get_certification = (\<lambda>takeoff student. Inr ()),
      get_minimums = (\<lambda>cert area instructed vfr is_day minimums.
                        Inr (if vfr \<and> area = ''Pattern'' then [1000, 3, 20, 8]
                             else if vfr then [1000, 3, 12, 8]
                             else [500, 0.75, 30, 20])),
      daytime = (\<lambda>takeoff daycycle. Inr True),
      write_csv = (\<lambda>data filename. Inr ()),
      test_all = Inr (),
      float_div = double_div,
      float_mul = double_mul\<rparr>"

text \<open>
  A second dataset: the same files, but the only lesson takes off at 06:00, before every
  observation of the log.
\<close>

definition early_lessons :: "string list list" where
  "early_lessons =
     [[''STUDENT'', ''AIRPLANE'', ''INSTRUCTOR'', ''TAKEOFF'', ''LANDING'', ''FILED'', ''AREA''],
      [''S00687'', ''548QR'', ''I061'', ''2017-04-21T06:00:00-04:00'', ''2017-04-21T07:00:00-04:00'', ''VFR'', ''Pattern'']]"

definition early_ext :: "(unit, unit, unit) collaborators" where
  "early_ext = example_ext\<lparr>read_csv :=
     (\<lambda>path. if path = ''KITH/lessons.csv'' then Inr early_lessons else read_csv example_ext path)\<rparr>"

section \<open>The float arithmetic of the examples\<close>

lemma floor_log2_eq:
  assumes "0 < x" and "2 powi e \<le> x" and "x < 2 powi (e + 1)"
  shows "\<lfloor>log 2 x\<rfloor> = e"
proof -
  have 1: "(2::real) powr real_of_int e = 2 powi e"
    using powr_real_of_int' [of "2::real" e] by simp
  have "(2::real) powr real_of_int (e + 1) = 2 powi (e + 1)"
    using powr_real_of_int' [of "2::real" "e + 1"] by simp
  then have 2: "(2::real) powr (real_of_int e + 1) = 2 powi (e + 1)"
    by (simp only: of_int_add of_int_1)
  have "(2::real) powr real_of_int e \<le> x \<and> x < 2 powr (real_of_int e + 1)"
    using assms by (simp only: 1 2 simp_thms)
  with assms(1) show ?thesis
    by (simp add: floor_log_eq_powr_iff)
qed

lemma round_double_1400: "round_double 1400 = 1400"
proof -
  have "\<lfloor>log 2 \<bar>1400 :: real\<bar>\<rfloor> = 10"
    by (rule floor_log2_eq) simp_all
  then show ?thesis
    by (simp add: round_double_def round_half_even_def Let_def power_int_minus)
qed

lemma round_double_5280: "round_double 5280 = 5280"
proof -
  have "\<lfloor>log 2 \<bar>5280 :: real\<bar>\<rfloor> = 12"
    by (rule floor_log2_eq) simp_all
  then show ?thesis
    by (simp add: round_double_def round_half_even_def Let_def power_int_minus)
qed

text \<open>
  Python's \<open>1400.0/5280\<close> is the double \<open>0.26515151515151514\<close>, which lies below the
  quotient \<open>35/132\<close> of the reals.
\<close>

lemma double_div_1400_5280: "double_div 1400 5280 = 4776545059332344 / 2 ^ 54"
proof -
  have "\<lfloor>log 2 \<bar>1400 / 5280 :: real\<bar>\<rfloor> = - 2"
    by (rule floor_log2_eq) (simp_all add: power_int_minus)
  then have "round_double (1400 / 5280) = 4776545059332344 / 2 ^ 54"
    by (simp add: round_double_def round_half_even_def Let_def power_int_minus)
  then show ?thesis
    by (simp only: double_div_def round_double_1400 round_double_5280)
qed

section \<open>Properties of the visibility check\<close>

lemma ebind_simps:
  "ebind (Inl e) f = Inl e"
  "ebind (Inr x) f = f x"
  by (simp_all add: ebind_def)

lemma is_float_conv: "is_float v \<longleftrightarrow> (\<exists>x. v = Some (Num x))"
  by (cases v rule: is_float.cases) simp_all

lemma is_optional_float_conv: "is_optional_float v \<longleftrightarrow> v = None \<or> (\<exists>x. v = Some (Num x))"
  by (cases v rule: is_float.cases) simp_all

lemma bad_visibility_dict:
  assumes "valid_visibility (MDict d)"
  shows "bad_visibility fdiv (MDict d) m = Inr (m \<ge> to_statute_miles fdiv d (governing_distance d))"
proof -
  from assms obtain p where p: "map_of d ''prevailing'' = Some (Num p)"
    by (auto simp: valid_visibility_def is_float_conv)
  from assms have mn: "map_of d ''minimum'' = None \<or> (\<exists>x. map_of d ''minimum'' = Some (Num x))"
    by (simp add: valid_visibility_def is_optional_float_conv)
  from assms have u: "map_of d ''units'' = Some (Str ''FT'') \<or> map_of d ''units'' = Some (Str ''SM'')"
    by (simp add: valid_visibility_def)
  from mn u show ?thesis
    by (auto simp: bad_visibility_def contains_def getitem_def lookup_def ebind_simps py_div_def
        read_var_def ge_val_def to_statute_miles_def governing_distance_def p)
qed

text \<open>
  C3. For a valid visibility measurement and a limit in statute miles: \<open>'unavailable'\<close>
  violates; a dictionary violates exactly when the limit is at least the governing
  distance (\<open>minimum\<close> if present, else \<open>prevailing\<close>) converted to statute miles, so a
  limit equal to the converted value is a violation. The converted value is the float
  that Python's division by 5280 returns: the statement holds for every division
  \<open>fdiv\<close>, so for the rounded one.
\<close>

theorem bad_visibility_spec:
  assumes "valid_visibility v"
  shows "bad_visibility fdiv v m =
           Inr (case v of MStr s \<Rightarrow> True
                | MDict d \<Rightarrow> m \<ge> to_statute_miles fdiv d (governing_distance d)
                | MList ds \<Rightarrow> False)"
proof (cases v)
  case (MStr s)
  with assms show ?thesis by (simp add: valid_visibility_def bad_visibility_def)
next
  case (MDict d)
  with assms show ?thesis by (simp add: bad_visibility_dict)
next
  case (MList ds)
  with assms show ?thesis by (simp add: valid_visibility_def)
qed

text \<open>
  The measurement of the docstring, with the division of doubles: a limit equal to the
  converted value \<open>1400.0/5280\<close> violates, as does the limit written
  \<open>0.26515151515151514\<close>; the limit \<open>0.25\<close> does not.
\<close>

theorem bad_visibility_spec_witness:
  "valid_visibility (MDict [(''prevailing'', Num 21120), (''minimum'', Num 1400),
       (''maximum'', Num 21120), (''units'', Str ''FT'')]) \<and>
   bad_visibility double_div (MDict [(''prevailing'', Num 21120), (''minimum'', Num 1400),
       (''maximum'', Num 21120), (''units'', Str ''FT'')]) (double_div 1400 5280) = Inr True \<and>
   bad_visibility double_div (MDict [(''prevailing'', Num 21120), (''minimum'', Num 1400),
       (''maximum'', Num 21120), (''units'', Str ''FT'')]) 0.26515151515151514 = Inr True \<and>
   bad_visibility double_div (MDict [(''prevailing'', Num 21120), (''minimum'', Num 1400),
       (''maximum'', Num 21120), (''units'', Str ''FT'')]) 0.25 = Inr False"
proof -
  let ?v = "MDict [(''prevailing'', Num 21120), (''minimum'', Num 1400),
       (''maximum'', Num 21120), (''units'', Str ''FT'')]"
  have v: "valid_visibility ?v"
    by (simp add: valid_visibility_def)
  from bad_visibility_spec [OF v, of double_div "double_div 1400 5280"]
    bad_visibility_spec [OF v, of double_div "0.26515151515151514"]
    bad_visibility_spec [OF v, of double_div "0.25"] v
  show ?thesis
    by (simp add: to_statute_miles_def governing_distance_def double_div_1400_5280)
qed

section \<open>Properties of the wind check\<close>

lemma bad_winds_with_crosswind:
  assumes "valid_winds (MDict d)" and "map_of d ''crosswind'' \<noteq> None"
  shows "bad_winds fmul (MDict d) maxwind maxcross =
           Inr (to_knots fmul d (wind_value d) > maxwind \<or>
                to_knots fmul d (the_float (map_of d ''crosswind'')) > maxcross)"
proof -
  from assms(1) obtain s where s: "map_of d ''speed'' = Some (Num s)"
    by (auto simp: valid_winds_def is_float_conv)
  from assms obtain c where c: "map_of d ''crosswind'' = Some (Num c)"
    by (auto simp: valid_winds_def is_optional_float_conv)
  from assms(1) have g: "map_of d ''gusts'' = None \<or> (\<exists>x. map_of d ''gusts'' = Some (Num x))"
    by (simp add: valid_winds_def is_optional_float_conv)
  from assms(1) have u: "map_of d ''units'' = Some (Str ''KT'') \<or> map_of d ''units'' = Some (Str ''MPS'')"
    by (simp add: valid_winds_def)
  from g u show ?thesis
    by (auto simp: bad_winds_def contains_def getitem_def lookup_def ebind_simps py_mul_def
        read_var_def val_gt_def to_knots_def wind_value_def s c)
qed

text \<open>
  C4, at a valid wind measurement without the optional \<open>'crosswind'\<close>: the check returns
  no verdict, it raises the \<open>KeyError\<close> of the missing key, although the limits (20 and
  10 knots) are not exceeded by the gusts of 18 knots.
\<close>

theorem bad_winds_valid_measurement_raises:
  "valid_winds (MDict [(''speed'', Num 12), (''gusts'', Num 18), (''units'', Str ''KT'')]) \<and>
   bad_winds double_mul (MDict [(''speed'', Num 12), (''gusts'', Num 18), (''units'', Str ''KT'')]) 20 10
     = Inl (KeyError ''crosswind'')"
  by (simp add: valid_winds_def bad_winds_def contains_def getitem_def lookup_def ebind_simps)

text \<open>
  C9. A dictionary wind measurement that is valid but has no \<open>'crosswind'\<close> makes the
  wind check fail with the lookup error of that key, whatever the limits are.
\<close>

theorem bad_winds_needs_crosswind:
  assumes "valid_winds (MDict d)" and "map_of d ''crosswind'' = None"
  shows "bad_winds fmul (MDict d) maxwind maxcross = Inl (KeyError ''crosswind'')"
proof -
  from assms(1) have "map_of d ''units'' = Some (Str ''KT'') \<or> map_of d ''units'' = Some (Str ''MPS'')"
    by (simp add: valid_winds_def)
  with assms(2) show ?thesis
    by (auto simp: bad_winds_def getitem_def lookup_def ebind_simps)
qed

theorem bad_winds_needs_crosswind_witness:
  "valid_winds (MDict [(''speed'', Num 3), (''units'', Str ''MPS'')]) \<and>
   map_of [(''speed'', Num 3), (''units'', Str ''MPS'')] ''crosswind'' = None \<and>
   bad_winds double_mul (MDict [(''speed'', Num 3), (''units'', Str ''MPS'')]) 20 8 =
     Inl (KeyError ''crosswind'')"
proof -
  have v: "valid_winds (MDict [(''speed'', Num 3), (''units'', Str ''MPS'')])"
    by (simp add: valid_winds_def)
  have n: "map_of [(''speed'', Num 3), (''units'', Str ''MPS'')] ''crosswind'' = None"
    by simp
  from bad_winds_needs_crosswind [OF v n, of double_mul 20 8] v n show ?thesis
    by simp
qed

section \<open>Properties of the ceiling check\<close>

lemma min_from_Num:
  "min_from (Num c) (map Num xs) = Inr (Num (Min (insert c (set xs))))"
proof (induction xs arbitrary: c)
  case Nil
  show ?case by simp
next
  case (Cons x xs)
  have m: "Min (insert (if x < c then x else c) (set xs)) = Min (insert c (set (x # xs)))"
  proof (cases "set xs = {}")
    case True
    then show ?thesis by (auto simp: min_def)
  next
    case False
    then show ?thesis by (auto simp: min_def)
  qed
  have "min_from (Num c) (map Num (x # xs)) = min_from (Num (if x < c then x else c)) (map Num xs)"
    by (simp add: ebind_simps)
  also have "\<dots> = Inr (Num (Min (insert (if x < c then x else c) (set xs))))"
    by (rule Cons.IH)
  finally show ?case
    by (simp only: m)
qed

lemma py_min_Num:
  "xs \<noteq> [] \<Longrightarrow> py_min (map Num xs) = Inr (Num (Min (set xs)))"
  by (cases xs) (simp_all add: min_from_Num)

lemma heights_of_valid:
  assumes "list_all valid_layer layers"
  shows "heights_of ty layers =
           Inr (map Num (map (\<lambda>l. the_float (map_of l ''height''))
                  (filter (\<lambda>l. map_of l ''type'' = Some (Str ty)) layers)))"
  using assms
proof (induction layers)
  case Nil
  show ?case by simp
next
  case (Cons l layers)
  from Cons.prems obtain t h where "map_of l ''type'' = Some (Str t)" "map_of l ''height'' = Some (Num h)"
    by (auto simp: valid_layer_def is_float_conv split: option.splits val.splits)
  with Cons show ?case
    by (simp add: lookup_def ebind_simps)
qed


lemma bad_ceiling_lists:
  assumes "layer_heights c = Inr (map Num S, map Num B, map Num C, map Num I)"
    and "c \<noteq> MStr ''clear''" and "c \<noteq> MStr ''unavailable''"
  shows "bad_ceiling c m =
           Inr (Some (set B \<union> set C \<union> set I \<noteq> {} \<and> m > Min (set B \<union> set C \<union> set I)))"
proof -
  have one: "\<And>a. py_min [Num a] = Inr (Num a)"
    by simp
  have two: "\<And>a b. py_min [Num a, Num b] = Inr (Num (min a b))"
    by (auto simp: ebind_simps min_def)
  have three: "\<And>a b c. py_min [Num a, Num b, Num c] = Inr (Num (min a (min b c)))"
    by (auto simp: ebind_simps min_def)
  show ?thesis
    unfolding bad_ceiling_def using assms(2,3)
    by (cases "S = []"; cases "B = []"; cases "C = []"; cases "I = []")
      (simp_all add: assms(1) ebind_simps py_min_Num gt_val_def Min_Un one two three min.assoc del: py_min.simps min_from.simps)
qed


lemma ceiling_heights_set:
  "set (ceiling_heights layers) =
     set (map (\<lambda>l. the_float (map_of l ''height'')) (filter (\<lambda>l. map_of l ''type'' = Some (Str ''broken'')) layers)) \<union>
     set (map (\<lambda>l. the_float (map_of l ''height'')) (filter (\<lambda>l. map_of l ''type'' = Some (Str ''overcast'')) layers)) \<union>
     set (map (\<lambda>l. the_float (map_of l ''height'')) (filter (\<lambda>l. map_of l ''type'' = Some (Str ''indefinite ceiling'')) layers))"
  by (auto simp: ceiling_heights_def is_ceiling_layer_def)

text \<open>
  C5. For a valid ceiling measurement and a limit in feet: \<open>'clear'\<close> complies and
  \<open>'unavailable'\<close> violates; a list of layers violates exactly when it has a broken,
  overcast or indefinite layer and the limit is greater than the least height of those
  layers. A list without such a layer (an empty one, or scattered and few layers only)
  complies whatever the limit is.
\<close>

theorem bad_ceiling_spec:
  assumes "valid_ceiling c"
  shows "bad_ceiling c m =
           Inr (Some (case c of
                  MStr s \<Rightarrow> s = ''unavailable''
                | MDict d \<Rightarrow> False
                | MList layers \<Rightarrow>
                    ceiling_heights layers \<noteq> [] \<and> m > Min (set (ceiling_heights layers))))"
proof (cases c)
  case (MStr s)
  with assms show ?thesis by (auto simp: valid_ceiling_def bad_ceiling_def)
next
  case (MDict d)
  with assms show ?thesis by (simp add: valid_ceiling_def)
next
  case (MList layers)
  with assms have v: "list_all valid_layer layers"
    by (simp add: valid_ceiling_def)
  have "layer_heights (MList layers) =
          Inr (map Num (map (\<lambda>l. the_float (map_of l ''height'')) (filter (\<lambda>l. map_of l ''type'' = Some (Str ''scattered'')) layers)),
               map Num (map (\<lambda>l. the_float (map_of l ''height'')) (filter (\<lambda>l. map_of l ''type'' = Some (Str ''broken'')) layers)),
               map Num (map (\<lambda>l. the_float (map_of l ''height'')) (filter (\<lambda>l. map_of l ''type'' = Some (Str ''overcast'')) layers)),
               map Num (map (\<lambda>l. the_float (map_of l ''height'')) (filter (\<lambda>l. map_of l ''type'' = Some (Str ''indefinite ceiling'')) layers)))"
    by (simp only: layer_heights_def measurement.case heights_of_valid [OF v] ebind_simps)
  from bad_ceiling_lists [OF this, of m]
  have "bad_ceiling (MList layers) m =
          Inr (Some (set (ceiling_heights layers) \<noteq> {} \<and> m > Min (set (ceiling_heights layers))))"
    by (simp only: ceiling_heights_set measurement.distinct not_False_eq_True)
  with MList show ?thesis by simp
qed

theorem bad_ceiling_spec_witness:
  "valid_ceiling (MList [[(''cover'', Str ''clouds''), (''type'', Str ''scattered''), (''height'', Num 700), (''units'', Str ''FT'')],
                         [(''type'', Str ''overcast''), (''height'', Num 1200), (''units'', Str ''FT'')]]) \<and>
   bad_ceiling (MList [[(''cover'', Str ''clouds''), (''type'', Str ''scattered''), (''height'', Num 700), (''units'', Str ''FT'')],
                       [(''type'', Str ''overcast''), (''height'', Num 1200), (''units'', Str ''FT'')]]) 2000 = Inr (Some True) \<and>
   bad_ceiling (MList [[(''cover'', Str ''clouds''), (''type'', Str ''scattered''), (''height'', Num 700), (''units'', Str ''FT'')],
                       [(''type'', Str ''overcast''), (''height'', Num 1200), (''units'', Str ''FT'')]]) 1000 = Inr (Some False)"
proof -
  let ?c = "MList [[(''cover'', Str ''clouds''), (''type'', Str ''scattered''), (''height'', Num 700), (''units'', Str ''FT'')],
                   [(''type'', Str ''overcast''), (''height'', Num 1200), (''units'', Str ''FT'')]]"
  have v: "valid_ceiling ?c"
    by (simp add: valid_ceiling_def valid_layer_def cover_types_def)
  from bad_ceiling_spec [OF v, of 2000] bad_ceiling_spec [OF v, of 1000] v
  show ?thesis
    by (simp add: ceiling_heights_def is_ceiling_layer_def)
qed

section \<open>Properties of the violation classifier\<close>

text \<open>
  Whenever the three checks return their verdicts, the classifier labels as the
  specification says: \<open>''\<close> when none fired, the label of the check when one fired,
  \<open>'Weather'\<close> when two or three fired.
\<close>

lemma get_weather_violation_of_verdicts:
  assumes "map_of w ''visibility'' = Some visibility"
    and "map_of w ''wind'' = Some wind"
    and "map_of w ''sky'' = Some sky"
    and "length minimums \<ge> 4"
    and "bad_visibility fdiv visibility (minimums ! 1) = Inr bv"
    and "bad_winds fmul wind (minimums ! 2) (minimums ! 3) = Inr bw"
    and "bad_ceiling sky (minimums ! 0) = Inr bc"
  shows "get_weather_violation fdiv fmul None minimums = Inr ''Unknown'' \<and>
         get_weather_violation fdiv fmul (Some w) minimums =
           Inr (classify (fired_labels bv bw (bc = Some True))) \<and>
         (\<not> bv \<and> bw \<and> bc = Some True \<longrightarrow>
            get_weather_violation fdiv fmul (Some w) minimums = Inr ''Weather'')"
proof -
  have "get_weather_violation fdiv fmul (Some w) minimums =
          Inr (classify (fired_labels bv bw (bc = Some True)))"
    using assms
    by (auto simp: get_weather_violation_def lookup_def py_index_def ebind_simps Let_def
        append_label_def classify_def fired_labels_def)
  then show ?thesis
    by (auto simp: get_weather_violation_def classify_def fired_labels_def)
qed

lemma get_weather_violation_weather_example:
  "get_weather_violation double_div double_mul None [3000, 0.25, 15, 8] = Inr ''Unknown'' \<and>
   get_weather_violation double_div double_mul
     (Some [(''visibility'', MDict [(''prevailing'', Num 21120), (''minimum'', Num 1400),
                                    (''maximum'', Num 21120), (''units'', Str ''FT'')]),
            (''wind'', MDict [(''speed'', Num 12), (''crosswind'', Num 3), (''gusts'', Num 18),
                              (''units'', Str ''KT'')]),
            (''sky'', MList [[(''cover'', Str ''clouds''), (''type'', Str ''broken''),
                              (''height'', Num 2100), (''units'', Str ''FT'')]])])
     [3000, 0.25, 15, 8] = Inr ''Weather''"
proof -
  let ?vis = "MDict [(''prevailing'', Num 21120), (''minimum'', Num 1400),
                     (''maximum'', Num 21120), (''units'', Str ''FT'')]"
  let ?wind = "MDict [(''speed'', Num 12), (''crosswind'', Num 3), (''gusts'', Num 18),
                      (''units'', Str ''KT'')]"
  let ?sky = "MList [[(''cover'', Str ''clouds''), (''type'', Str ''broken''),
                      (''height'', Num 2100), (''units'', Str ''FT'')]]"
  let ?w = "[(''visibility'', ?vis), (''wind'', ?wind), (''sky'', ?sky)]"
  let ?m = "[3000, 0.25, 15, 8] :: real list"
  have 1: "map_of ?w ''visibility'' = Some ?vis" by simp
  have 2: "map_of ?w ''wind'' = Some ?wind" by simp
  have 3: "map_of ?w ''sky'' = Some ?sky" by simp
  have 4: "length ?m \<ge> 4" by simp
  have 5: "bad_visibility double_div ?vis (?m ! 1) = Inr False"
    by (simp add: bad_visibility_def contains_def getitem_def lookup_def ebind_simps py_div_def
        read_var_def ge_val_def double_div_1400_5280)
  have 6: "bad_winds double_mul ?wind (?m ! 2) (?m ! 3) = Inr True"
    by (simp add: bad_winds_def contains_def getitem_def lookup_def ebind_simps
        read_var_def val_gt_def)
  have 7: "bad_ceiling ?sky (?m ! 0) = Inr (Some True)"
    by (simp add: bad_ceiling_def layer_heights_def lookup_def ebind_simps gt_val_def)
  from get_weather_violation_of_verdicts [OF 1 2 3 4 5 6 7] show ?thesis
    by (simp add: classify_def fired_labels_def)
qed

text \<open>
  C6, at an observation whose three measurements are valid: the visibility of 10 miles,
  the gusts of 18 knots and the clear sky violate none of the minimums, so the label of
  the specification is \<open>''\<close>. The wind measurement has no \<open>'crosswind'\<close>, which its
  docstring allows, and the classifier returns no label: the \<open>KeyError\<close> of the wind check
  leaves it.
\<close>

theorem get_weather_violation_valid_observation_raises:
  "valid_visibility (MDict [(''prevailing'', Num 10), (''units'', Str ''SM'')]) \<and>
   valid_winds (MDict [(''speed'', Num 12), (''gusts'', Num 18), (''units'', Str ''KT'')]) \<and>
   valid_ceiling (MStr ''clear'') \<and>
   get_weather_violation double_div double_mul
     (Some [(''visibility'', MDict [(''prevailing'', Num 10), (''units'', Str ''SM'')]),
            (''wind'', MDict [(''speed'', Num 12), (''gusts'', Num 18), (''units'', Str ''KT'')]),
            (''sky'', MStr ''clear'')])
     [3000, 3, 20, 8] = Inl (KeyError ''crosswind'')"
  by (simp add: valid_visibility_def valid_winds_def valid_ceiling_def get_weather_violation_def
      lookup_def py_index_def ebind_simps bad_visibility_def bad_winds_def contains_def
      getitem_def read_var_def ge_val_def)

section \<open>Properties of the observation resolver\<close>

lemma before_keys_loop_result:
  "before_keys_loop parse takeoff acc keys = Inr r \<Longrightarrow>
     r = acc @ filter (is_before parse takeoff) keys \<and>
     (\<forall>key\<in>set keys. \<exists>d. parse key = Inr d)"
proof (induction keys arbitrary: acc)
  case Nil
  then show ?case by simp
next
  case (Cons key keys)
  show ?case
  proof (cases "parse key")
    case (Inl e)
    with Cons.prems show ?thesis by (simp add: ebind_simps)
  next
    case (Inr key_dto)
    with Cons.prems Cons.IH [of "if tzinfo_eq (tzinfo takeoff) (tzinfo key_dto) \<and> dt_gt takeoff key_dto
          then acc @ [key] else acc"]
    show ?thesis
      by (auto simp: ebind_simps is_before_def)
  qed
qed

lemma before_keys_loop_all_parse:
  "\<forall>key\<in>set keys. \<exists>d. parse key = Inr d \<Longrightarrow>
     before_keys_loop parse takeoff acc keys =
       Inr (acc @ filter (is_before parse takeoff) keys)"
proof (induction keys arbitrary: acc)
  case Nil
  then show ?case by simp
next
  case (Cons key keys)
  then obtain key_dto where "parse key = Inr key_dto" by auto
  with Cons show ?case
    by (simp add: ebind_simps is_before_def)
qed

lemma max_from_Max: "max_from cur items = Max (insert cur (set items))"
proof (induction items arbitrary: cur)
  case Nil
  show ?case by simp
next
  case (Cons item items)
  have m: "Max (insert (if item > cur then item else cur) (set items)) = Max (insert cur (set (item # items)))"
  proof (cases "set items = {}")
    case True
    then show ?thesis by (auto simp: max_def)
  next
    case False
    then show ?thesis by (auto simp: max_def)
  qed
  have "max_from cur (item # items) = max_from (if item > cur then item else cur) items"
    by simp
  also have "\<dots> = Max (insert (if item > cur then item else cur) (set items))"
    by (rule Cons.IH)
  finally show ?case
    by (simp only: m)
qed

lemma py_max_Max: "xs \<noteq> [] \<Longrightarrow> py_max xs = Inr (Max (set xs))"
  by (cases xs) (simp_all add: max_from_Max)

text \<open>
  C1, on the code: when the log has no key equal to the ISO representation of the takeoff
  and no entry of an equal \<open>tzinfo\<close> strictly before it, the resolver does not return
  \<open>None\<close>. The scan leaves \<open>before_keys\<close> empty and \<open>max(before_keys)\<close> raises
  \<open>ValueError\<close> inside the handler (or a key that is no timestamp has raised before),
  so the branch \<open>return None\<close> is never reached.
\<close>

theorem get_weather_report_no_prior_raises:
  assumes "map_of weather (isoformat takeoff) = None"
    and "\<forall>key\<in>set (map fst weather). \<not> is_before parse takeoff key"
  shows "(\<exists>e. get_weather_report parse takeoff weather = Inl e) \<and>
         ((\<forall>key\<in>set (map fst weather). \<exists>d. parse key = Inr d) \<longrightarrow>
            get_weather_report parse takeoff weather = Inl ValueError)"
proof -
  have none: "filter (is_before parse takeoff) (map fst weather) = []"
    using assms(2) by (simp add: filter_empty_conv)
  have g: "get_weather_report parse takeoff weather =
             ebind (before_keys_loop parse takeoff [] (map fst weather)) (\<lambda>before_keys.
             ebind (py_max before_keys) (\<lambda>best_key.
               if length best_key \<noteq> 0 then ebind (lookup weather best_key) (\<lambda>r. Inr (Some r))
               else Inr None))"
    using assms(1) by (simp add: get_weather_report_def lookup_def)
  have 1: "\<exists>e. get_weather_report parse takeoff weather = Inl e"
  proof (cases "before_keys_loop parse takeoff [] (map fst weather)")
    case (Inl e)
    with g show ?thesis by (simp add: ebind_simps)
  next
    case (Inr r)
    from before_keys_loop_result [OF this] none have "r = []" by simp
    with g Inr show ?thesis by (simp add: ebind_simps)
  qed
  have 2: "get_weather_report parse takeoff weather = Inl ValueError"
    if "\<forall>key\<in>set (map fst weather). \<exists>d. parse key = Inr d"
    using g before_keys_loop_all_parse [OF that, of takeoff "[]"] none
    by (simp add: ebind_simps)
  from 1 2 show ?thesis by blast
qed


lemma zero_pad_2: "zero_pad 2 n = [digit_char (n div 10), digit_char (n mod 10)]"
proof -
  have "zero_pad (Suc (Suc 0)) n = [digit_char (n div 10), digit_char (n mod 10)]"
    by simp
  then show ?thesis by (simp only: numeral_2_eq_2)
qed

lemma zero_pad_4:
  "zero_pad 4 n = [digit_char (n div 1000), digit_char (n mod 1000 div 100),
                   digit_char (n mod 1000 mod 100 div 10), digit_char (n mod 1000 mod 100 mod 10)]"
proof -
  have "zero_pad (Suc (Suc (Suc (Suc 0)))) n =
          [digit_char (n div 1000), digit_char (n mod 1000 div 100),
           digit_char (n mod 1000 mod 100 div 10), digit_char (n mod 1000 mod 100 mod 10)]"
    by simp
  moreover have "(4::nat) = Suc (Suc (Suc (Suc 0)))" by simp
  ultimately show ?thesis by (simp only:)
qed

lemma digit_char_simps:
  "digit_char 0 = CHR ''0''" "digit_char 1 = CHR ''1''" "digit_char (Suc 0) = CHR ''1''"
  "digit_char 2 = CHR ''2''"
  "digit_char 3 = CHR ''3''" "digit_char 4 = CHR ''4''" "digit_char 5 = CHR ''5''"
  "digit_char 6 = CHR ''6''" "digit_char 7 = CHR ''7''" "digit_char 8 = CHR ''8''"
  "digit_char 9 = CHR ''9''"
  by (simp_all add: digit_char_def)

lemma isoformat_example_time:
  "isoformat (example_time 6 0 (- 14400)) = ''2017-04-21T06:00:00-04:00''"
  "isoformat (example_time 8 0 (- 14400)) = ''2017-04-21T08:00:00-04:00''"
  "isoformat (example_time 9 0 (- 14400)) = ''2017-04-21T09:00:00-04:00''"
  "isoformat (example_time 8 30 (- 18000)) = ''2017-04-21T08:30:00-05:00''"
  by (simp_all add: isoformat_def format_offset_def example_time_def zero_pad_2 zero_pad_4
      digit_char_simps del: zero_pad.simps)

theorem get_weather_report_no_prior_raises_witness:
  "map_of [(''2017-04-21T07:00:00-04:00'', example_observation 700)]
     (isoformat (example_time 6 0 (- 14400))) = None \<and>
   \<not> is_before example_str_to_time (example_time 6 0 (- 14400)) ''2017-04-21T07:00:00-04:00'' \<and>
   get_weather_report example_str_to_time (example_time 6 0 (- 14400))
     [(''2017-04-21T07:00:00-04:00'', example_observation 700)] = Inl ValueError"
proof -
  let ?weather = "[(''2017-04-21T07:00:00-04:00'', example_observation 700)]"
  let ?takeoff = "example_time 6 0 (- 14400)"
  have 1: "map_of ?weather (isoformat ?takeoff) = None"
    by (simp add: isoformat_example_time)
  have 2: "\<forall>key\<in>set (map fst ?weather). \<not> is_before example_str_to_time ?takeoff key"
    by (simp add: is_before_def example_str_to_time_def example_time_def dt_gt_def dt_fields_def)
  have 3: "\<forall>key\<in>set (map fst ?weather). \<exists>d. example_str_to_time key = Inr d"
    by (simp add: example_str_to_time_def)
  from get_weather_report_no_prior_raises [OF 1 2] 1 2 3 show ?thesis
    by simp
qed

section \<open>The resolver on logs keyed by ISO timestamps\<close>

lemma append_less_same_length:
  fixes p q :: "'a::linorder list"
  shows "length p = length q \<Longrightarrow> (p @ x < q @ y) = (p < q \<or> p = q \<and> x < y)"
  by (induction p q rule: list_induct2) auto

lemma length_zero_pad [simp]: "length (zero_pad w n) = w"
  by (induction w arbitrary: n) simp_all

lemma of_char_digit_char: "n < 10 \<Longrightarrow> (of_char (digit_char n) :: nat) = 48 + n"
proof -
  assume "n < 10"
  then have "n \<in> {0, 1, 2, 3, 4, 5, 6, 7, 8, 9}" by auto
  then show ?thesis
    by (auto simp: digit_char_def)
qed

lemma digit_char_less: "a < 10 \<Longrightarrow> b < 10 \<Longrightarrow> (digit_char a < digit_char b) = (a < b)"
  by (simp add: less_char_def of_char_digit_char)

lemma digit_char_eq: "a < 10 \<Longrightarrow> b < 10 \<Longrightarrow> (digit_char a = digit_char b) = (a = b)"
proof
  assume "a < 10" "b < 10" "digit_char a = digit_char b"
  then have "(of_char (digit_char a) :: nat) = of_char (digit_char b)" by simp
  with \<open>a < 10\<close> \<open>b < 10\<close> show "a = b" by (simp add: of_char_digit_char)
qed simp

lemma div_mod_less_iff:
  fixes n m k :: nat
  assumes "0 < k"
  shows "(n < m) = (n div k < m div k \<or> n div k = m div k \<and> n mod k < m mod k)"
proof -
  have n: "n = k * (n div k) + n mod k" and m: "m = k * (m div k) + m mod k" by simp_all
  show ?thesis
  proof (cases "n div k = m div k")
    case True
    then show ?thesis by (metis n m nat_add_left_cancel_less less_irrefl)
  next
    case False
    then consider "n div k < m div k" | "m div k < n div k" by linarith
    then show ?thesis
    proof cases
      case 1
      then have "n < m"
        by (metis assms div_le_mono leD leI)
      with 1 show ?thesis by simp
    next
      case 2
      then have "m < n"
        by (metis assms div_le_mono leD leI)
      with 2 show ?thesis by auto
    qed
  qed
qed

lemma zero_pad_less_eq:
  "n < 10 ^ w \<Longrightarrow> m < 10 ^ w \<Longrightarrow>
     (zero_pad w n < zero_pad w m) = (n < m) \<and> (zero_pad w n = zero_pad w m) = (n = m)"
proof (induction w arbitrary: n m)
  case 0
  then show ?case by simp
next
  case (Suc w)
  have k: "(0::nat) < 10 ^ w" by simp
  from Suc.prems have a: "n div 10 ^ w < 10" and b: "m div 10 ^ w < 10"
    by (simp_all add: less_mult_imp_div_less mult.commute)
  have r: "n mod 10 ^ w < 10 ^ w" "m mod 10 ^ w < 10 ^ w" by simp_all
  note ih = Suc.IH [OF r]
  have e: "(n = m) = (n div 10 ^ w = m div 10 ^ w \<and> n mod 10 ^ w = m mod 10 ^ w)"
    by (metis div_mult_mod_eq)
  show ?case
    using ih div_mod_less_iff [OF k, of n m] e
    by (simp add: digit_char_less [OF a b] digit_char_eq [OF a b])
qed

lemmas zero_pad_less = zero_pad_less_eq [THEN conjunct1]
lemmas zero_pad_eq = zero_pad_less_eq [THEN conjunct2]


lemma format_offset_head:
  "format_offset tz = [] \<or> (\<exists>z. format_offset tz = CHR ''+'' # z \<or> format_offset tz = CHR ''-'' # z)"
  by (cases tz) (simp_all add: format_offset_def Let_def)

lemma fraction_less:
  assumes "a < 1000000" and "b < 1000000"
  shows "((if a = 0 then [] else CHR ''.'' # zero_pad 6 a) @ format_offset tz <
          (if b = 0 then [] else CHR ''.'' # zero_pad 6 b) @ format_offset tz) = (a < b)"
proof -
  have p: "a < 10 ^ 6" "b < 10 ^ 6" using assms by simp_all
  from format_offset_head [of tz] show ?thesis
    by (auto simp: append_less_same_length zero_pad_less [OF p] less_char_def)
qed

lemma isoformat_less:
  assumes "valid_datetime a" and "valid_datetime b"
    and "format_offset (tzinfo a) = format_offset (tzinfo b)"
  shows "(isoformat a < isoformat b) = (dt_fields a < dt_fields b)"
proof -
  from assms(1,2) have y: "year a < 10 ^ 4" "year b < 10 ^ 4"
    and mo: "month a < 10 ^ 2" "month b < 10 ^ 2"
    and d: "day a < 10 ^ 2" "day b < 10 ^ 2"
    and h: "hour a < 10 ^ 2" "hour b < 10 ^ 2"
    and mi: "minute a < 10 ^ 2" "minute b < 10 ^ 2"
    and s: "second a < 10 ^ 2" "second b < 10 ^ 2"
    and us: "microsecond a < 1000000" "microsecond b < 1000000"
    by (simp_all add: valid_datetime_def)
  show ?thesis
    unfolding isoformat_def dt_fields_def assms(3)
    by (simp only: append_less_same_length length_zero_pad append_Cons append_Nil Cons_less_Cons
        zero_pad_less [OF y] zero_pad_eq [OF y] zero_pad_less [OF mo] zero_pad_eq [OF mo]
        zero_pad_less [OF d] zero_pad_eq [OF d] zero_pad_less [OF h] zero_pad_eq [OF h]
        zero_pad_less [OF mi] zero_pad_eq [OF mi] zero_pad_less [OF s] zero_pad_eq [OF s]
        fraction_less [OF us] less_irrefl simp_thms Nil_less_Cons not_less_Nil)
qed


lemma timezone_eq_utcoffset: "timezone_eq a b \<Longrightarrow> utcoffset a = utcoffset b"
  by (cases a; cases b) simp_all

lemma tzinfo_eq_utcoffset:
  "tzinfo_eq a b \<Longrightarrow> map_option utcoffset a = map_option utcoffset b"
  by (cases a; cases b) (simp_all add: timezone_eq_utcoffset)

lemma format_offset_utcoffset:
  "map_option utcoffset a = map_option utcoffset b \<Longrightarrow> format_offset a = format_offset b"
  by (cases a; cases b) (simp_all add: format_offset_def)

lemma tzinfo_eq_format_offset: "tzinfo_eq a b \<Longrightarrow> format_offset a = format_offset b"
  by (rule format_offset_utcoffset) (rule tzinfo_eq_utcoffset)

text \<open>
  An entry that the scan keeps is an entry of the offset of the takeoff strictly before
  it; the converse fails for time zone objects of different classes.
\<close>

lemma is_before_same_offset:
  "is_before parse takeoff key \<Longrightarrow> same_offset_before parse takeoff key"
  by (auto simp: is_before_def same_offset_before_def dt_gt_def tzinfo_eq_utcoffset
      split: sum.splits)

lemma isoformat_not_Nil: "isoformat d \<noteq> []"
  by (simp add: isoformat_def)

text \<open>
  C7 as stated fails on the code in two ways. First, the scan keeps an entry when its
  \<open>tzinfo\<close> is \<open>==\<close> that of the takeoff, not when the UTC offsets agree: for a takeoff at
  08:45 built with \<open>datetime.timezone\<close> of -04:00 and a log with the entries of 07:00 and
  08:00 at -04:00, parsed with \<open>tzoffset\<close>, both entries have the offset of the takeoff and
  lie before it, and the resolver raises \<open>ValueError\<close>. Second, the scan takes the greatest
  key string, not the latest timestamp: with the 08:00 entry written with a space for the
  \<open>T\<close>, the resolver returns the observation of 07:00 although the entry of 08:00 is
  later and before the takeoff.
\<close>

theorem get_weather_report_claim_counterexample:
  "map_of [(''2017-04-21T07:00:00-04:00'', example_observation 700),
           (''2017-04-21T08:00:00-04:00'', example_observation 800)]
     (isoformat (stdlib_time 8 45 (- 14400))) = None \<and>
   same_offset_before example_str_to_time (stdlib_time 8 45 (- 14400)) ''2017-04-21T08:00:00-04:00'' \<and>
   get_weather_report example_str_to_time (stdlib_time 8 45 (- 14400))
     [(''2017-04-21T07:00:00-04:00'', example_observation 700),
      (''2017-04-21T08:00:00-04:00'', example_observation 800)] = Inl ValueError \<and>
   map_of [(''2017-04-21T07:00:00-04:00'', example_observation 700),
           (''2017-04-21 08:00:00-04:00'', example_observation 800)]
     (isoformat (example_time 8 45 (- 14400))) = None \<and>
   lenient_str_to_time ''2017-04-21T07:00:00-04:00'' = Inr (example_time 7 0 (- 14400)) \<and>
   lenient_str_to_time ''2017-04-21 08:00:00-04:00'' = Inr (example_time 8 0 (- 14400)) \<and>
   same_offset_before lenient_str_to_time (example_time 8 45 (- 14400)) ''2017-04-21 08:00:00-04:00'' \<and>
   dt_gt (example_time 8 0 (- 14400)) (example_time 7 0 (- 14400)) \<and>
   get_weather_report lenient_str_to_time (example_time 8 45 (- 14400))
     [(''2017-04-21T07:00:00-04:00'', example_observation 700),
      (''2017-04-21 08:00:00-04:00'', example_observation 800)]
     = Inr (Some (example_observation 700)) \<and>
   example_observation 700 \<noteq> example_observation 800"
proof -
  have iso: "isoformat (stdlib_time 8 45 (- 14400)) = ''2017-04-21T08:45:00-04:00''"
    "isoformat (example_time 8 45 (- 14400)) = ''2017-04-21T08:45:00-04:00''"
    by (simp_all add: isoformat_def format_offset_def example_time_def stdlib_time_def
        zero_pad_2 zero_pad_4 digit_char_simps del: zero_pad.simps)
  have 1: "get_weather_report example_str_to_time (stdlib_time 8 45 (- 14400))
     [(''2017-04-21T07:00:00-04:00'', example_observation 700),
      (''2017-04-21T08:00:00-04:00'', example_observation 800)] = Inl ValueError"
    unfolding get_weather_report_def Let_def iso
    by (simp add: lookup_def ebind_simps example_str_to_time_def example_time_def
        stdlib_time_def)
  have 2: "get_weather_report lenient_str_to_time (example_time 8 45 (- 14400))
     [(''2017-04-21T07:00:00-04:00'', example_observation 700),
      (''2017-04-21 08:00:00-04:00'', example_observation 800)]
     = Inr (Some (example_observation 700))"
    unfolding get_weather_report_def Let_def iso
    by (simp add: lookup_def ebind_simps lenient_str_to_time_def
        example_str_to_time_def example_time_def dt_gt_def dt_fields_def)
  have 3: "same_offset_before example_str_to_time (stdlib_time 8 45 (- 14400)) ''2017-04-21T08:00:00-04:00''"
    "same_offset_before lenient_str_to_time (example_time 8 45 (- 14400)) ''2017-04-21 08:00:00-04:00''"
    by (simp_all add: same_offset_before_def lenient_str_to_time_def example_str_to_time_def
        example_time_def stdlib_time_def dt_fields_def)
  have 4: "lenient_str_to_time ''2017-04-21T07:00:00-04:00'' = Inr (example_time 7 0 (- 14400))"
    "lenient_str_to_time ''2017-04-21 08:00:00-04:00'' = Inr (example_time 8 0 (- 14400))"
    by (simp_all add: lenient_str_to_time_def example_str_to_time_def)
  have 5: "dt_gt (example_time 8 0 (- 14400)) (example_time 7 0 (- 14400))"
    by (simp add: dt_gt_def dt_fields_def example_time_def)
  have 6: "example_observation 700 \<noteq> example_observation 800"
    by (simp add: example_observation_def)
  from 1 2 3 4 5 6 show ?thesis
    by (simp add: iso)
qed

text \<open>
  C7, amended. A key equal to the ISO representation of the takeoff wins: its observation
  is returned. Otherwise, for a log whose keys are written as \<open>isoformat\<close> writes the
  timestamps they denote, with at least one entry whose \<open>tzinfo\<close> is \<open>==\<close> that of the
  takeoff and whose timestamp is strictly before it, the resolver returns the observation
  of such an entry, and no entry of that kind has a later timestamp; entries of an
  unequal \<open>tzinfo\<close> and entries at or after the takeoff are not considered.
\<close>

theorem get_weather_report_spec:
  "(map_of weather (isoformat takeoff) = Some obs \<longrightarrow>
      get_weather_report parse takeoff weather = Inr (Some obs)) \<and>
   (map_of weather (isoformat takeoff) = None \<and>
    (\<forall>key\<in>set (map fst weather). \<exists>d. parse key = Inr d \<and> valid_datetime d \<and> isoformat d = key) \<and>
    (\<exists>key\<in>set (map fst weather). is_before parse takeoff key) \<longrightarrow>
      (\<exists>key d obs'. get_weather_report parse takeoff weather = Inr (Some obs') \<and>
         map_of weather key = Some obs' \<and> parse key = Inr d \<and>
         tzinfo_eq (tzinfo takeoff) (tzinfo d) \<and> dt_gt takeoff d \<and>
         (\<forall>key'\<in>set (map fst weather). \<forall>d'. is_before parse takeoff key' \<and> parse key' = Inr d' \<longrightarrow>
            \<not> dt_gt d' d)))"
proof (intro conjI impI)
  assume "map_of weather (isoformat takeoff) = Some obs"
  then show "get_weather_report parse takeoff weather = Inr (Some obs)"
    by (simp add: get_weather_report_def lookup_def)
next
  assume a: "map_of weather (isoformat takeoff) = None \<and>
    (\<forall>key\<in>set (map fst weather). \<exists>d. parse key = Inr d \<and> valid_datetime d \<and> isoformat d = key) \<and>
    (\<exists>key\<in>set (map fst weather). is_before parse takeoff key)"
  let ?keys = "map fst weather"
  let ?B = "filter (is_before parse takeoff) ?keys"
  let ?best = "Max (set ?B)"
  from a have canon: "\<forall>key\<in>set ?keys. \<exists>d. parse key = Inr d \<and> valid_datetime d \<and> isoformat d = key"
    by blast
  then have all: "\<forall>key\<in>set ?keys. \<exists>d. parse key = Inr d" by blast
  from a have ne: "?B \<noteq> []" by (auto simp: filter_empty_conv)
  then have ne': "set ?B \<noteq> {}" by (simp only: set_empty not_False_eq_True)
  have "?best \<in> set ?B" by (rule Max_in [OF finite_set ne'])
  then have best_key: "?best \<in> set ?keys" and best_before: "is_before parse takeoff ?best"
    by simp_all
  from canon best_key obtain d where d: "parse ?best = Inr d" "valid_datetime d" "isoformat d = ?best"
    by blast
  from best_before d(1) have tz: "tzinfo_eq (tzinfo takeoff) (tzinfo d)" and gt: "dt_gt takeoff d"
    by (simp_all add: is_before_def)
  from d(3) have nonempty: "length ?best \<noteq> 0"
    using isoformat_not_Nil [of d] by simp
  from best_key obtain obs' where obs': "map_of weather ?best = Some obs'"
    by (cases "map_of weather ?best") (auto simp: map_of_eq_None_iff)
  have g: "get_weather_report parse takeoff weather = Inr (Some obs')"
    using a before_keys_loop_all_parse [OF all, of takeoff "[]"] py_max_Max [OF ne] nonempty obs'
    by (simp add: get_weather_report_def lookup_def ebind_simps)
  have latest: "\<not> dt_gt d' d"
    if k: "key' \<in> set ?keys" and b: "is_before parse takeoff key'" and p: "parse key' = Inr d'"
    for key' d'
  proof
    assume later: "dt_gt d' d"
    from canon k p have v: "valid_datetime d'" and i: "isoformat d' = key'" by auto
    from b p have "tzinfo_eq (tzinfo takeoff) (tzinfo d')" by (simp add: is_before_def)
    then have "format_offset (tzinfo takeoff) = format_offset (tzinfo d')"
      by (rule tzinfo_eq_format_offset)
    moreover from tz have "format_offset (tzinfo takeoff) = format_offset (tzinfo d)"
      by (rule tzinfo_eq_format_offset)
    ultimately have "format_offset (tzinfo d) = format_offset (tzinfo d')" by simp
    from isoformat_less [OF d(2) v this] later have "isoformat d < isoformat d'"
      by (simp add: dt_gt_def)
    with d(3) i have "?best < key'" by simp
    moreover from k b have "key' \<in> set ?B" by simp
    then have "key' \<le> ?best" by (rule Max_ge [OF finite_set])
    ultimately show False by simp
  qed
  from g obs' d(1) tz gt latest
  show "\<exists>key d obs'. get_weather_report parse takeoff weather = Inr (Some obs') \<and>
         map_of weather key = Some obs' \<and> parse key = Inr d \<and>
         tzinfo_eq (tzinfo takeoff) (tzinfo d) \<and> dt_gt takeoff d \<and>
         (\<forall>key'\<in>set (map fst weather). \<forall>d'. is_before parse takeoff key' \<and> parse key' = Inr d' \<longrightarrow>
            \<not> dt_gt d' d)"
    by blast
qed

lemma isoformat_example_time_more:
  "isoformat (example_time 7 0 (- 14400)) = ''2017-04-21T07:00:00-04:00''"
  "isoformat (example_time 8 45 (- 14400)) = ''2017-04-21T08:45:00-04:00''"
  by (simp_all add: isoformat_def format_offset_def example_time_def zero_pad_2 zero_pad_4
      digit_char_simps del: zero_pad.simps)

lemma valid_example_time: "h < 24 \<Longrightarrow> m < 60 \<Longrightarrow> - 86400 < off \<Longrightarrow> off < 86400 \<Longrightarrow>
    valid_datetime (example_time h m off)"
  by (simp add: valid_datetime_def example_time_def)

theorem get_weather_report_spec_witness:
  "get_weather_report example_str_to_time (example_time 8 0 (- 14400))
     [(''2017-04-21T07:00:00-04:00'', example_observation 700),
      (''2017-04-21T08:30:00-05:00'', example_observation 900),
      (''2017-04-21T08:00:00-04:00'', example_observation 800),
      (''2017-04-21T09:00:00-04:00'', example_observation 1000)]
     = Inr (Some (example_observation 800)) \<and>
   get_weather_report example_str_to_time (example_time 8 45 (- 14400))
     [(''2017-04-21T07:00:00-04:00'', example_observation 700),
      (''2017-04-21T08:30:00-05:00'', example_observation 900),
      (''2017-04-21T08:00:00-04:00'', example_observation 800),
      (''2017-04-21T09:00:00-04:00'', example_observation 1000)]
     = Inr (Some (example_observation 800)) \<and>
   (\<exists>key d obs'.
      get_weather_report example_str_to_time (example_time 8 45 (- 14400))
        [(''2017-04-21T07:00:00-04:00'', example_observation 700),
         (''2017-04-21T08:30:00-05:00'', example_observation 900),
         (''2017-04-21T08:00:00-04:00'', example_observation 800),
         (''2017-04-21T09:00:00-04:00'', example_observation 1000)] = Inr (Some obs') \<and>
      example_str_to_time key = Inr d \<and>
      tzinfo_eq (Some (Tzoffset (- 14400))) (tzinfo d) \<and>
      dt_gt (example_time 8 45 (- 14400)) d \<and>
      \<not> dt_gt (example_time 7 0 (- 14400)) d)"
proof -
  let ?log = "[(''2017-04-21T07:00:00-04:00'', example_observation 700),
      (''2017-04-21T08:30:00-05:00'', example_observation 900),
      (''2017-04-21T08:00:00-04:00'', example_observation 800),
      (''2017-04-21T09:00:00-04:00'', example_observation 1000)]"
  let ?exact = "example_time 8 0 (- 14400)"
  let ?takeoff = "example_time 8 45 (- 14400)"
  have exact: "map_of ?log (isoformat ?exact) = Some (example_observation 800)"
    by (simp add: isoformat_example_time)
  have no_key: "map_of ?log (isoformat ?takeoff) = None"
    by (simp add: isoformat_example_time_more)
  have canonical: "\<forall>key\<in>set (map fst ?log).
      \<exists>d. example_str_to_time key = Inr d \<and> valid_datetime d \<and> isoformat d = key"
    by (simp add: example_str_to_time_def valid_example_time isoformat_example_time
        isoformat_example_time_more)
  have seven: "is_before example_str_to_time ?takeoff ''2017-04-21T07:00:00-04:00''"
    by (simp add: is_before_def example_str_to_time_def example_time_def dt_gt_def dt_fields_def)
  then have prior: "\<exists>key\<in>set (map fst ?log). is_before example_str_to_time ?takeoff key"
    by simp
  have parse_seven: "example_str_to_time ''2017-04-21T07:00:00-04:00'' = Inr (example_time 7 0 (- 14400))"
    by (simp add: example_str_to_time_def)
  have tz: "tzinfo ?takeoff = Some (Tzoffset (- 14400))"
    by (simp add: example_time_def)
  from get_weather_report_spec [of ?log ?exact "example_observation 800" example_str_to_time] exact
  have 1: "get_weather_report example_str_to_time ?exact ?log = Inr (Some (example_observation 800))"
    by blast
  from get_weather_report_spec [of ?log ?takeoff "example_observation 800" example_str_to_time]
    no_key canonical prior
  obtain key d obs' where r: "get_weather_report example_str_to_time ?takeoff ?log = Inr (Some obs')"
    "example_str_to_time key = Inr d" "tzinfo_eq (tzinfo ?takeoff) (tzinfo d)" "dt_gt ?takeoff d"
    "\<forall>key'\<in>set (map fst ?log). \<forall>d'. is_before example_str_to_time ?takeoff key' \<and>
        example_str_to_time key' = Inr d' \<longrightarrow> \<not> dt_gt d' d"
    by blast
  from r(5) seven parse_seven have "\<not> dt_gt (example_time 7 0 (- 14400)) d"
    by simp
  with r tz have 3: "\<exists>key d obs'.
      get_weather_report example_str_to_time ?takeoff ?log = Inr (Some obs') \<and>
      example_str_to_time key = Inr d \<and> tzinfo_eq (Some (Tzoffset (- 14400))) (tzinfo d) \<and>
      dt_gt ?takeoff d \<and> \<not> dt_gt (example_time 7 0 (- 14400)) d"
    by auto
  have 2: "get_weather_report example_str_to_time ?takeoff ?log = Inr (Some (example_observation 800))"
    using no_key
    by (simp add: get_weather_report_def lookup_def ebind_simps example_str_to_time_def
        example_time_def dt_gt_def dt_fields_def)
  from 1 2 3 show ?thesis by blast
qed

section \<open>Properties of the audit driver\<close>

lemma lesson_violation_valid:
  assumes "valid_lesson line"
  shows "lesson_violation ext daycycle weather minimums students vfr line =
         lesson_violation ext daycycle weather minimums students None line"
proof -
  from assms have 5: "py_index line 5 = Inr (line ! 5)"
    and f: "line ! 5 = ''VFR'' \<or> line ! 5 = ''IFR''"
    by (simp_all add: valid_lesson_def py_index_def)
  from f show ?thesis
    by (auto simp: lesson_violation_def 5 ebind_simps Let_def)
qed

lemma lessons_loop_valid:
  assumes "\<forall>line\<in>set lessons. valid_lesson line \<and>
             violation_label ext daycycle weather minimums students line = Inr (label line)"
  shows "lessons_loop ext daycycle weather minimums students vfr results lessons =
           Inr (results @ map (\<lambda>line. line @ [label line]) (filter (\<lambda>line. label line \<noteq> '''') lessons))"
  using assms
proof (induction lessons arbitrary: vfr results)
  case Nil
  show ?case by simp
next
  case (Cons line lessons)
  from Cons.prems have v: "valid_lesson line"
    and l: "violation_label ext daycycle weather minimums students line = Inr (label line)"
    by simp_all
  from l obtain vfr' where
    "lesson_violation ext daycycle weather minimums students None line = Inr (vfr', label line)"
    by (cases "lesson_violation ext daycycle weather minimums students None line")
      (auto simp: violation_label_def ebind_simps)
  with lesson_violation_valid [OF v, of ext daycycle weather minimums students vfr]
  have s: "lesson_violation ext daycycle weather minimums students vfr line = Inr (vfr', label line)"
    by simp
  from Cons.prems have rest: "\<forall>line\<in>set lessons. valid_lesson line \<and>
      violation_label ext daycycle weather minimums students line = Inr (label line)"
    by simp
  show ?case
    by (simp add: s ebind_simps Cons.IH [OF rest])
qed

text \<open>
  When the five files load and every takeoff record is valid and has a label, the driver
  returns, in the order of the input, exactly the records whose label is not empty, each
  once and with its label appended as the last field.
\<close>

lemma list_weather_violations_of_labels:
  assumes "read_json_daycycle ext (path_join directory DAYCYCLE) = Inr daycycle"
    and "read_json_weather ext (path_join directory WEATHER) = Inr weather"
    and "read_csv ext (path_join directory MINIMUMS) = Inr minimums"
    and "read_csv ext (path_join directory STUDENTS) = Inr students"
    and "read_csv ext (path_join directory LESSONS) = Inr table"
    and "\<forall>line\<in>set (drop 1 table). valid_lesson line \<and>
           violation_label ext daycycle weather minimums students line = Inr (label line)"
  shows "list_weather_violations ext directory =
           Inr (map (\<lambda>line. line @ [label line])
                 (filter (\<lambda>line. label line \<noteq> '''') (drop 1 table)))"
  using lessons_loop_valid [OF assms(6), of None "[]"]
  by (simp add: list_weather_violations_def assms(1-5) ebind_simps)


lemma example_paths:
  "path_join ''KITH'' DAYCYCLE = ''KITH/daycycle.json''"
  "path_join ''KITH'' WEATHER = ''KITH/weather.json''"
  "path_join ''KITH'' MINIMUMS = ''KITH/minimums.csv''"
  "path_join ''KITH'' STUDENTS = ''KITH/students.csv''"
  "path_join ''KITH'' LESSONS = ''KITH/lessons.csv''"
  by (simp_all add: path_join_def DAYCYCLE_def WEATHER_def MINIMUMS_def STUDENTS_def LESSONS_def)

lemma example_reports:
  "get_weather_report example_str_to_time (example_time 7 0 (- 14400)) example_log
     = Inr (Some (example_observation 700))"
  "get_weather_report example_str_to_time (example_time 8 0 (- 14400)) example_log
     = Inr (Some (example_observation 800))"
  "get_weather_report example_str_to_time (example_time 9 0 (- 14400)) example_log
     = Inr (Some (example_observation 1200))"
  by (simp_all add: get_weather_report_def lookup_def example_log_def isoformat_example_time
      isoformat_example_time_more)

lemma example_labels:
  "get_weather_violation double_div double_mul (Some (example_observation 800)) [1000, 3, 20, 8]
     = Inr ''Ceiling''"
  "get_weather_violation double_div double_mul (Some (example_observation 1200)) [500, 3 / 4, 30, 20]
     = Inr ''''"
  "get_weather_violation double_div double_mul (Some (example_observation 700)) [1000, 3, 12, 8]
     = Inr ''Weather''"
  "get_weather_violation double_div double_mul None [1000, 3, 20, 8] = Inr ''Unknown''"
  by (simp_all add: get_weather_violation_def example_observation_def lookup_def py_index_def
      ebind_simps bad_visibility_def bad_winds_def bad_ceiling_def layer_heights_def contains_def
      getitem_def read_var_def ge_val_def gt_val_def val_gt_def append_label_def)

lemma list_weather_violations_example:
  "list_weather_violations example_ext ''KITH'' =
     Inr [[''S00687'', ''548QR'', ''I061'', ''2017-04-21T08:00:00-04:00'',
           ''2017-04-21T09:00:00-04:00'', ''VFR'', ''Pattern'', ''Ceiling''],
          [''S00971'', ''426JQ'', ''I072'', ''2017-04-21T07:00:00-04:00'',
           ''2017-04-21T08:00:00-04:00'', ''VFR'', ''Practice Area'', ''Weather'']]"
proof -
  let ?label = "\<lambda>line :: string list.
     if line ! 0 = ''S00687'' then ''Ceiling'' else if line ! 0 = ''S00758'' then '''' else ''Weather''"
  have 1: "read_json_daycycle example_ext (path_join ''KITH'' DAYCYCLE) = Inr ()"
    by (simp add: example_ext_def example_paths)
  have 2: "read_json_weather example_ext (path_join ''KITH'' WEATHER) = Inr example_log"
    by (simp add: example_ext_def example_paths)
  have 3: "read_csv example_ext (path_join ''KITH'' MINIMUMS) = Inr []"
    by (simp add: example_ext_def example_paths)
  have 4: "read_csv example_ext (path_join ''KITH'' STUDENTS) = Inr []"
    by (simp add: example_ext_def example_paths)
  have 5: "read_csv example_ext (path_join ''KITH'' LESSONS) = Inr example_lessons"
    by (simp add: example_ext_def example_paths)
  have 6: "\<forall>line\<in>set (drop 1 example_lessons). valid_lesson line \<and>
             violation_label example_ext () example_log [] [] line = Inr (?label line)"
    by (simp add: example_lessons_def valid_lesson_def violation_label_def lesson_violation_def
        py_index_def ebind_simps read_var_def example_ext_def example_str_to_time_def
        example_reports example_labels)
  from list_weather_violations_of_labels [of example_ext "''KITH''", OF 1 2 3 4 5 6]
  show ?thesis
    by (simp add: example_lessons_def)
qed

text \<open>
  C8, at a dataset whose only lesson is a valid takeoff record with no observation before
  it: the label of that record is \<open>'Unknown'\<close>, which is not the empty string, so the
  record belongs in the result. The resolver raises \<open>ValueError\<close> for it (the defect of
  C1), nothing catches the error in the loop, and the driver returns no rows at all.
\<close>

theorem list_weather_violations_unknown_raises:
  "list_all valid_lesson (drop 1 early_lessons) \<and>
   get_weather_report example_str_to_time (example_time 6 0 (- 14400)) example_log = Inl ValueError \<and>
   get_weather_violation double_div double_mul None [1000, 3, 20, 8] = Inr ''Unknown'' \<and>
   list_weather_violations early_ext ''KITH'' = Inl ValueError"
proof -
  have r: "get_weather_report example_str_to_time (example_time 6 0 (- 14400)) example_log = Inl ValueError"
    unfolding get_weather_report_def Let_def isoformat_example_time
    by (simp add: lookup_def example_log_def ebind_simps example_str_to_time_def example_time_def
        dt_gt_def dt_fields_def)
  have "list_weather_violations early_ext ''KITH'' = Inl ValueError"
    by (simp add: list_weather_violations_def example_paths early_ext_def example_ext_def
        ebind_simps early_lessons_def lesson_violation_def py_index_def read_var_def
        example_str_to_time_def r)
  with r show ?thesis
    by (simp add: early_lessons_def valid_lesson_def example_labels)
qed

section \<open>Properties of the application\<close>

text \<open>
  C10. With \<open>output = None\<close> the report is still written: whenever the audit and the
  write succeed, \<open>discover_violations(directory, None)\<close> writes the header and the
  violation rows to \<open>'output.csv'\<close> and then prints the summary line, and these are the
  effects of every invocation that returns.
\<close>

theorem discover_violations_None_writes:
  "(list_weather_violations ext directory = Inr vios \<and>
    write_csv ext (HEADER # vios) ''output.csv'' = Inr () \<longrightarrow>
      (\<exists>line. discover_violations ext directory None =
                 Inr [WriteCsv (HEADER # vios) ''output.csv'', Print line])) \<and>
   (discover_violations ext directory None = Inr effects \<longrightarrow>
      (\<exists>rows line. list_weather_violations ext directory = Inr rows \<and>
         effects = [WriteCsv (HEADER # rows) ''output.csv'', Print line]))"
proof (intro conjI impI)
  assume "list_weather_violations ext directory = Inr vios \<and>
    write_csv ext (HEADER # vios) ''output.csv'' = Inr ()"
  then show "\<exists>line. discover_violations ext directory None =
                 Inr [WriteCsv (HEADER # vios) ''output.csv'', Print line]"
    by (simp add: discover_violations_def ebind_simps Let_def)
next
  assume r: "discover_violations ext directory None = Inr effects"
  show "\<exists>rows line. list_weather_violations ext directory = Inr rows \<and>
         effects = [WriteCsv (HEADER # rows) ''output.csv'', Print line]"
  proof (cases "list_weather_violations ext directory")
    case (Inl e)
    with r show ?thesis by (simp add: discover_violations_def ebind_simps)
  next
    case (Inr rows)
    with r show ?thesis
      by (cases "write_csv ext (HEADER # rows) ''output.csv''")
        (auto simp: discover_violations_def ebind_simps Let_def)
  qed
qed

lemma show_nat_2: "show_nat 2 = ''2''" "show_nat (Suc (Suc 0)) = ''2''"
  by (simp_all add: show_nat.simps [of 2] show_nat.simps [of "Suc (Suc 0)"] digit_char_def)

lemma example_audit:
  "list_weather_violations example_ext ''KITH'' =
     Inr [[''S00687'', ''548QR'', ''I061'', ''2017-04-21T08:00:00-04:00'',
           ''2017-04-21T09:00:00-04:00'', ''VFR'', ''Pattern'', ''Ceiling''],
          [''S00971'', ''426JQ'', ''I072'', ''2017-04-21T07:00:00-04:00'',
           ''2017-04-21T08:00:00-04:00'', ''VFR'', ''Practice Area'', ''Weather'']]"
  by (simp add: list_weather_violations_def example_paths example_ext_def ebind_simps
      example_lessons_def lesson_violation_def py_index_def read_var_def
      example_str_to_time_def example_reports example_labels)

theorem discover_violations_None_writes_witness:
  "discover_violations example_ext ''KITH'' None =
     Inr [WriteCsv
            [HEADER,
             [''S00687'', ''548QR'', ''I061'', ''2017-04-21T08:00:00-04:00'',
              ''2017-04-21T09:00:00-04:00'', ''VFR'', ''Pattern'', ''Ceiling''],
             [''S00971'', ''426JQ'', ''I072'', ''2017-04-21T07:00:00-04:00'',
              ''2017-04-21T08:00:00-04:00'', ''VFR'', ''Practice Area'', ''Weather'']]
            ''output.csv'',
          Print ''2 violations found.'']"
proof -
  let ?vios = "[[''S00687'', ''548QR'', ''I061'', ''2017-04-21T08:00:00-04:00'',
           ''2017-04-21T09:00:00-04:00'', ''VFR'', ''Pattern'', ''Ceiling''],
          [''S00971'', ''426JQ'', ''I072'', ''2017-04-21T07:00:00-04:00'',
           ''2017-04-21T08:00:00-04:00'', ''VFR'', ''Practice Area'', ''Weather'']]"
  have w: "write_csv example_ext (HEADER # ?vios) ''output.csv'' = Inr ()"
    by (simp add: example_ext_def)
  from discover_violations_None_writes [of example_ext "''KITH''" ?vios] example_audit w
  obtain line where l: "discover_violations example_ext ''KITH'' None =
      Inr [WriteCsv (HEADER # ?vios) ''output.csv'', Print line]"
    by blast
  have "discover_violations example_ext ''KITH'' None =
      Inr [WriteCsv (HEADER # ?vios) ''output.csv'', Print ''2 violations found.'']"
    by (simp add: discover_violations_def example_audit ebind_simps Let_def w show_nat_2)
  with l show ?thesis by simp
qed

text \<open>
  C2, on the code: a single argument that names a dataset directory runs no audit. The
  call \<open>discover_violations(args)\<close> raises, the handler catches it, and the usage line
  is all that happens.
\<close>

theorem execute_one_dataset_prints_usage:
  assumes "directory \<noteq> ''--test''"
  shows "execute ext [directory] = Inr [Print USAGE]"
  using assms by (simp add: execute_def discover_violations_one_argument_def)

theorem execute_one_dataset_prints_usage_witness:
  "''KITH'' \<noteq> ''--test'' \<and>
   execute example_ext [''KITH''] = Inr [Print USAGE] \<and>
   execute example_ext [''KITH'', ''report.csv''] =
     Inr [WriteCsv
            [HEADER,
             [''S00687'', ''548QR'', ''I061'', ''2017-04-21T08:00:00-04:00'',
              ''2017-04-21T09:00:00-04:00'', ''VFR'', ''Pattern'', ''Ceiling''],
             [''S00971'', ''426JQ'', ''I072'', ''2017-04-21T07:00:00-04:00'',
              ''2017-04-21T08:00:00-04:00'', ''VFR'', ''Practice Area'', ''Weather'']]
            ''report.csv'',
          Print ''2 violations found.'']"
proof -
  have n: "''KITH'' \<noteq> ''--test''" by simp
  have w: "\<And>data. write_csv example_ext data ''report.csv'' = Inr ()"
    by (simp add: example_ext_def)
  have "execute example_ext [''KITH'', ''report.csv''] =
     Inr [WriteCsv
            [HEADER,
             [''S00687'', ''548QR'', ''I061'', ''2017-04-21T08:00:00-04:00'',
              ''2017-04-21T09:00:00-04:00'', ''VFR'', ''Pattern'', ''Ceiling''],
             [''S00971'', ''426JQ'', ''I072'', ''2017-04-21T07:00:00-04:00'',
              ''2017-04-21T08:00:00-04:00'', ''VFR'', ''Practice Area'', ''Weather'']]
            ''report.csv'',
          Print ''2 violations found.'']"
    by (simp add: execute_def discover_violations_def example_audit ebind_simps Let_def w show_nat_2)
  with execute_one_dataset_prints_usage [OF n, of example_ext] n show ?thesis
    by simp
qed

end
